theory Spec2Isabelle
  imports Complex_Main
begin

section \<open>Data model\<close>

text \<open>
  The tables are pandas data frames in the source. A data frame is modelled as the list
  of its rows, in row order. Scores and ratings are Python floats; they are modelled as
  real numbers, so every statement below is about exact arithmetic.

  A row of the item table. Only \<open>anime_id\<close> is read with \<open>row['anime_id']\<close>; the other
  columns are read with \<open>.get(column, default)\<close>, so a column the table does not have is
  \<open>None\<close> here and takes the default of the reading code.
\<close>

record anime =
  a_anime_id :: int
  a_name :: "string option"
  a_genre :: "string option"
  a_type :: "string option"
  a_episodes :: "int option"
  a_rating :: "real option"

text \<open>A row of the rating table: the columns \<open>user_id\<close>, \<open>anime_id\<close>, \<open>rating\<close>.\<close>

record rating_row =
  r_user_id :: int
  r_anime_id :: int
  r_rating :: real

text \<open>
  A recommendation is a Python dict. The keys every producer writes are plain fields; a key
  that only some producers write is an optional field (\<open>similarity_score\<close> is missing in
  the service's own popularity list, the three hybrid keys exist only after fusion).
\<close>

record recommendation =
  rec_anime_id :: int
  rec_name :: string
  rec_genre :: string
  rec_type :: string
  rec_episodes :: int
  rec_rating :: real
  similarity_score :: "real option"
  recommendation_type :: string
  hybrid_score :: "real option"
  collaborative_score :: "real option"
  content_score :: "real option"

text \<open>Every \<open>raise\<close> of the source, and an exception raised inside a library call.\<close>

datatype error =
  FileNotFoundError string
  | ValueError string
  | LibraryError string

section \<open>Python helpers\<close>

text \<open>
  \<open>xs[:n]\<close> and \<open>DataFrame.head(n)\<close>: the first \<open>n\<close> elements for \<open>n \<ge> 0\<close>, all but the
  last \<open>-n\<close> elements for a negative \<open>n\<close>.
\<close>

definition py_prefix :: "int \<Rightarrow> 'a list \<Rightarrow> 'a list" where
  "py_prefix n xs =
     (if 0 \<le> n then take (nat n) xs else take (length xs - nat (- n)) xs)"

text \<open>
  \<open>sorted(items, key=..., reverse=True)\<close> and \<open>list.sort(key=..., reverse=True)\<close>: Python's
  sort is stable, and with \<open>reverse=True\<close> elements with equal keys keep their original
  order. \<open>sort_key\<close> is a stable insertion sort, so sorting on the negated key is the same
  list.
\<close>

definition sorted_reverse :: "('a \<Rightarrow> real) \<Rightarrow> 'a list \<Rightarrow> 'a list" where
  "sorted_reverse key xs = sort_key (\<lambda>x. - key x) xs"

text \<open>
  \<open>d[k] = 0\<close> when \<open>k\<close> is not yet a key, then \<open>d[k] += v\<close>, on a dict kept as an association
  list in insertion order (the order \<open>d.items()\<close> iterates in).
\<close>

fun add_score :: "(int \<times> real) list \<Rightarrow> int \<Rightarrow> real \<Rightarrow> (int \<times> real) list" where
  "add_score [] k v = [(k, 0 + v)]"
| "add_score ((k', s) # rest) k v =
     (if k' = k then (k', s + v) # rest else (k', s) # add_score rest k v)"

text \<open>A loop whose body can raise: the first error ends it.\<close>

fun fold_err :: "('a \<Rightarrow> 'b \<Rightarrow> error + 'b) \<Rightarrow> 'a list \<Rightarrow> 'b \<Rightarrow> error + 'b" where
  "fold_err f [] acc = Inr acc"
| "fold_err f (x # xs) acc =
     (case f x acc of Inl e \<Rightarrow> Inl e | Inr acc' \<Rightarrow> fold_err f xs acc')"

text \<open>\<open>xs.index(v)\<close>: the first position of \<open>v\<close>, \<open>None\<close> where Python raises ValueError.\<close>

fun list_index :: "'a list \<Rightarrow> 'a \<Rightarrow> nat option" where
  "list_index [] v = None"
| "list_index (x # xs) v =
     (if x = v then Some 0 else map_option Suc (list_index xs v))"

section \<open>Data provider\<close>

text \<open>
  \<open>AnimeDataProvider\<close>. The two CSV files are the provider's input: \<open>None\<close> is a file that
  does not exist. The provider caches the loaded frames and never writes them, so loading
  is a function of the files. \<open>sample_size\<close> is the constructor's argument (\<open>nrows\<close> of
  the rating file; \<open>None\<close> and \<open>0\<close> read the whole file).
\<close>

record data_provider =
  anime_file :: "anime list option"
  rating_file :: "rating_row list option"
  sample_size :: "nat option"

definition load_anime_data :: "data_provider \<Rightarrow> error + anime list" where
  "load_anime_data dp =
     (case anime_file dp of
        None \<Rightarrow> Inl (FileNotFoundError ''anime_with_synopsis.csv'')
      | Some rows \<Rightarrow> Inr rows)"

definition load_rating_data :: "data_provider \<Rightarrow> error + rating_row list" where
  "load_rating_data dp =
     (case rating_file dp of
        None \<Rightarrow> Inl (FileNotFoundError ''rating_complete.csv'')
      | Some rows \<Rightarrow>
          (case sample_size dp of
             None \<Rightarrow> Inr rows
           | Some n \<Rightarrow> if n = 0 then Inr rows else Inr (take n rows)))"

text \<open>
  \<open>get_anime_info\<close> on a loaded item table: the first row with that id as a dict, or
  \<open>None\<close>. The dict of a row is never empty, so \<open>if anime_info:\<close> is true exactly
  when a row was found.
\<close>

definition anime_info_of :: "anime list \<Rightarrow> int \<Rightarrow> anime option" where
  "anime_info_of anime_data anime_id = find (\<lambda>a. a_anime_id a = anime_id) anime_data"

definition get_anime_info :: "data_provider \<Rightarrow> int \<Rightarrow> error + anime option" where
  "get_anime_info dp anime_id =
     (case load_anime_data dp of
        Inl e \<Rightarrow> Inl e
      | Inr anime_data \<Rightarrow> Inr (anime_info_of anime_data anime_id))"

definition get_user_ratings :: "data_provider \<Rightarrow> int \<Rightarrow> error + rating_row list" where
  "get_user_ratings dp user_id =
     (case load_rating_data dp of
        Inl e \<Rightarrow> Inl e
      | Inr rating_data \<Rightarrow> Inr (filter (\<lambda>r. r_user_id r = user_id) rating_data))"

text \<open>
  \<open>groupby(column).size()\<close>: one entry per value that occurs in the column, with the number
  of rows holding it, the keys in ascending order.
\<close>

definition group_sizes :: "int list \<Rightarrow> (int \<times> nat) list" where
  "group_sizes ks = map (\<lambda>k. (k, count_list ks k)) (sort (remdups ks))"

text \<open>
  \<open>get_popular_anime\<close>: the rows of the item table, in table order, whose id has at least
  \<open>min_ratings\<close> rows in the rating table. The rating table is loaded first.
\<close>

definition get_popular_anime :: "data_provider \<Rightarrow> int \<Rightarrow> error + anime list" where
  "get_popular_anime dp min_ratings =
     (case load_rating_data dp of
        Inl e \<Rightarrow> Inl e
      | Inr rating_data \<Rightarrow>
          (case load_anime_data dp of
             Inl e \<Rightarrow> Inl e
           | Inr anime_data \<Rightarrow>
               (let rating_counts = group_sizes (map r_anime_id rating_data);
                    popular_anime_ids =
                      map fst (filter (\<lambda>(anime_id, rating_count). min_ratings \<le> int rating_count)
                        rating_counts)
                in Inr (filter (\<lambda>a. a_anime_id a \<in> set popular_anime_ids) anime_data))))"

section \<open>Popularity fallback of the two engines\<close>

text \<open>\<open>.get(key, default)\<close> on a row.\<close>

definition get_or :: "'a option \<Rightarrow> 'a \<Rightarrow> 'a" where
  "get_or v d = (case v of None \<Rightarrow> d | Some x \<Rightarrow> x)"

text \<open>The dict both engines build from an item row, with its score and type tag.\<close>

definition make_recommendation :: "int \<Rightarrow> anime \<Rightarrow> real option \<Rightarrow> string \<Rightarrow> recommendation" where
  "make_recommendation anime_id info score rtype =
     \<lparr> rec_anime_id = anime_id,
       rec_name = get_or (a_name info) ''Unknown'',
       rec_genre = get_or (a_genre info) '''',
       rec_type = get_or (a_type info) '''',
       rec_episodes = get_or (a_episodes info) 0,
       rec_rating = get_or (a_rating info) 0,
       similarity_score = score,
       recommendation_type = rtype,
       hybrid_score = None,
       collaborative_score = None,
       content_score = None \<rparr>"

text \<open>
  \<open>_get_popular_recommendations\<close>, which \<open>UserBasedCollaborativeFiltering\<close> and
  \<open>ContentBasedFiltering\<close> both define with the same body: the first \<open>n_recommendations\<close> rows
  of \<open>get_popular_anime(min_ratings=50)\<close>, score \<open>0.0\<close>, type \<open>popular\<close>.
\<close>

definition popular_recommendation :: "anime \<Rightarrow> recommendation" where
  "popular_recommendation a = make_recommendation (a_anime_id a) a (Some 0) ''popular''"

definition get_popular_recommendations :: "data_provider \<Rightarrow> int \<Rightarrow> error + recommendation list" where
  "get_popular_recommendations dp n_recommendations =
     (case get_popular_anime dp 50 of
        Inl e \<Rightarrow> Inl e
      | Inr popular_anime \<Rightarrow>
          Inr (map popular_recommendation (py_prefix n_recommendations popular_anime)))"

section \<open>Library calls\<close>

text \<open>
  The similarity matrices are computed by scikit-learn, which is not part of the
  repository. \<open>cosine_similarity(X)\<close> on a matrix with \<open>n\<close> rows returns an \<open>n \<times> n\<close> array or
  raises; its entries are an input of the model, given as a function of the two row
  indices. \<open>item_similarity\<close> stands for everything \<open>build_similarity_matrix\<close> hands to the
  library for a loaded item table (the TF-IDF text features, the scaled numeric features
  and their cosine similarity): again the entries of an array with one row and one column
  per item, or an exception.
\<close>

record sklearn =
  cosine_similarity :: "real list list \<Rightarrow> error + (nat \<Rightarrow> nat \<Rightarrow> real)"
  item_similarity :: "anime list \<Rightarrow> error + (nat \<Rightarrow> nat \<Rightarrow> real)"

definition dense :: "nat \<Rightarrow> (nat \<Rightarrow> nat \<Rightarrow> real) \<Rightarrow> real list list" where
  "dense n entries = map (\<lambda>i. map (\<lambda>j. entries i j) [0..<n]) [0..<n]"

section \<open>Collaborative engine\<close>

text \<open>
  \<open>Series.nlargest(n)\<close>: the \<open>n\<close> entries with the largest counts, largest first, entries
  with equal counts in their order in the series (\<open>keep='first'\<close>).
\<close>

definition nlargest :: "nat \<Rightarrow> (int \<times> nat) list \<Rightarrow> (int \<times> nat) list" where
  "nlargest n counts = take n (sort_key (\<lambda>(k, c). - int c) counts)"

text \<open>The four attributes \<open>_compute_user_similarity\<close> leaves on the engine.\<close>

record cf_model =
  user_mapping :: "(int \<times> nat) list"
  anime_mapping :: "(int \<times> nat) list"
  rating_matrix :: "real list list"
  user_similarity_matrix :: "real list list"

text \<open>
  \<open>_create_rating_matrix\<close> on the loaded rating table. The two mappings are the dicts
  \<open>{id: idx for idx, id in enumerate(ids)}\<close>. \<open>csr_matrix((values, (rows, cols)))\<close> adds up
  the values that share a cell, and a cell without a value is \<open>0\<close>.
\<close>

definition create_rating_matrix ::
  "nat \<Rightarrow> nat \<Rightarrow> rating_row list \<Rightarrow> (int \<times> nat) list \<times> (int \<times> nat) list \<times> real list list" where
  "create_rating_matrix max_users max_anime rating_data =
     (let anime_rating_counts = group_sizes (map r_anime_id rating_data);
          popular_anime_ids = map fst (nlargest max_anime anime_rating_counts);
          user_rating_counts = group_sizes (map r_user_id rating_data);
          active_user_ids = map fst (nlargest max_users user_rating_counts);
          filtered_ratings =
            filter (\<lambda>r. r_anime_id r \<in> set popular_anime_ids \<and> r_user_id r \<in> set active_user_ids)
              rating_data;
          um = zip active_user_ids [0..<length active_user_ids];
          am = zip popular_anime_ids [0..<length popular_anime_ids];
          cell = (\<lambda>i j. sum_list (map r_rating
                   (filter (\<lambda>r. map_of um (r_user_id r) = Some i \<and> map_of am (r_anime_id r) = Some j)
                      filtered_ratings)))
      in (um, am,
          map (\<lambda>i. map (\<lambda>j. cell i j) [0..<length popular_anime_ids])
            [0..<length active_user_ids]))"

text \<open>
  \<open>_compute_user_similarity\<close>, with the \<open>_create_rating_matrix\<close> it starts with: the rating
  table is loaded first, then the item table, then the library is called. The engine keeps
  the result for later calls; the tables never change, so the kept value is the value
  computed here.
\<close>

definition compute_user_similarity ::
  "sklearn \<Rightarrow> nat \<Rightarrow> nat \<Rightarrow> data_provider \<Rightarrow> error + cf_model" where
  "compute_user_similarity lib max_users max_anime dp =
     (case load_rating_data dp of
        Inl e \<Rightarrow> Inl e
      | Inr rating_data \<Rightarrow>
          (case load_anime_data dp of
             Inl e \<Rightarrow> Inl e
           | Inr anime_data \<Rightarrow>
               (case create_rating_matrix max_users max_anime rating_data of
                  (um, am, matrix) \<Rightarrow>
                    (case cosine_similarity lib matrix of
                       Inl e \<Rightarrow> Inl e
                     | Inr entries \<Rightarrow>
                         Inr \<lparr> user_mapping = um, anime_mapping = am, rating_matrix = matrix,
                               user_similarity_matrix = dense (length matrix) entries \<rparr>))))"

text \<open>
  \<open>np.argsort(a)\<close>: the indices of \<open>a\<close> in ascending order of their values. Indices with
  equal values are kept in ascending order (a stable sort; numpy's default sort is an
  insertion sort, hence stable, on short arrays).
\<close>

definition argsort :: "real list \<Rightarrow> nat list" where
  "argsort a = sort_key (\<lambda>i. a ! i) [0..<length a]"

text \<open>\<open>np.argsort(user_similarities)[::-1][1:11]\<close>.\<close>

definition similar_users :: "real list \<Rightarrow> nat list" where
  "similar_users user_similarities = take 10 (drop 1 (rev (argsort user_similarities)))"

text \<open>\<open>list(mapping.keys())[list(mapping.values()).index(idx)]\<close>.\<close>

definition mapping_key_of :: "(int \<times> nat) list \<Rightarrow> nat \<Rightarrow> error + int" where
  "mapping_key_of m idx =
     (case list_index (map snd m) idx of
        None \<Rightarrow> Inl (ValueError ''is not in list'')
      | Some p \<Rightarrow> Inr (map fst m ! p))"

text \<open>
  The body of the inner loop, for one \<open>(anime_idx, rating)\<close> of a neighbour's row. Both
  rows come from the same matrix, so \<open>anime_idx\<close> is within \<open>user_ratings\<close>.
\<close>

definition score_item ::
  "(int \<times> nat) list \<Rightarrow> real list \<Rightarrow> real \<Rightarrow> nat \<times> real \<Rightarrow> (int \<times> real) list
     \<Rightarrow> error + (int \<times> real) list" where
  "score_item am user_ratings similarity = (\<lambda>(anime_idx, rating) anime_scores.
     if rating > 0 \<and> user_ratings ! anime_idx = 0 then
       (case mapping_key_of am anime_idx of
          Inl e \<Rightarrow> Inl e
        | Inr anime_id \<Rightarrow> Inr (add_score anime_scores anime_id (similarity * rating)))
     else Inr anime_scores)"

text \<open>The body of the outer loop, for one neighbour.\<close>

definition score_neighbour ::
  "cf_model \<Rightarrow> real list \<Rightarrow> real list \<Rightarrow> nat \<Rightarrow> (int \<times> real) list \<Rightarrow> error + (int \<times> real) list" where
  "score_neighbour m user_similarities user_ratings similar_user_idx anime_scores =
     fold_err
       (score_item (anime_mapping m) user_ratings (user_similarities ! similar_user_idx))
       (enumerate 0 (rating_matrix m ! similar_user_idx))
       anime_scores"

definition collaborative_scores :: "cf_model \<Rightarrow> nat \<Rightarrow> error + (int \<times> real) list" where
  "collaborative_scores m user_idx =
     (let user_similarities = user_similarity_matrix m ! user_idx;
          user_ratings = rating_matrix m ! user_idx
      in fold_err (score_neighbour m user_similarities user_ratings)
           (similar_users user_similarities) [])"

text \<open>
  The last loop of both engines, over the top of the ranking: an item that
  \<open>get_anime_info\<close> does not find is skipped.
\<close>

fun collect_recommendations ::
  "string \<Rightarrow> data_provider \<Rightarrow> (int \<times> real) list \<Rightarrow> error + recommendation list" where
  "collect_recommendations rtype dp [] = Inr []"
| "collect_recommendations rtype dp ((anime_id, score) # rest) =
     (case get_anime_info dp anime_id of
        Inl e \<Rightarrow> Inl e
      | Inr anime_info \<Rightarrow>
          (case collect_recommendations rtype dp rest of
             Inl e \<Rightarrow> Inl e
           | Inr recs \<Rightarrow>
               Inr (case anime_info of
                      None \<Rightarrow> recs
                    | Some info \<Rightarrow> make_recommendation anime_id info (Some score) rtype # recs)))"

text \<open>\<open>UserBasedCollaborativeFiltering.get_recommendations\<close>.\<close>

definition cf_get_recommendations ::
  "sklearn \<Rightarrow> nat \<Rightarrow> nat \<Rightarrow> data_provider \<Rightarrow> int \<Rightarrow> int \<Rightarrow> error + recommendation list" where
  "cf_get_recommendations lib max_users max_anime dp user_id n_recommendations =
     (case compute_user_similarity lib max_users max_anime dp of
        Inl e \<Rightarrow> Inl e
      | Inr m \<Rightarrow>
          (case map_of (user_mapping m) user_id of
             None \<Rightarrow> get_popular_recommendations dp n_recommendations
           | Some user_idx \<Rightarrow>
               (case collaborative_scores m user_idx of
                  Inl e \<Rightarrow> Inl e
                | Inr anime_scores \<Rightarrow>
                    collect_recommendations ''collaborative'' dp
                      (py_prefix n_recommendations (sorted_reverse snd anime_scores)))))"

section \<open>Content engine\<close>

text \<open>
  \<open>build_similarity_matrix\<close>: the item table is loaded, the library does the rest. The
  engine keeps the table and the matrix.
\<close>

definition build_similarity_matrix ::
  "sklearn \<Rightarrow> data_provider \<Rightarrow> error + anime list \<times> real list list" where
  "build_similarity_matrix lib dp =
     (case load_anime_data dp of
        Inl e \<Rightarrow> Inl e
      | Inr anime_data \<Rightarrow>
          (case item_similarity lib anime_data of
             Inl e \<Rightarrow> Inl e
           | Inr entries \<Rightarrow> Inr (anime_data, dense (length anime_data) entries)))"

text \<open>
  The two loops of \<open>_get_similar_anime\<close>. A liked id that is not in the item table is
  skipped; otherwise the row of its first occurrence is added to the scores of the items
  the user has not rated. The matrix has one column per row of the table, so \<open>idx\<close> is
  within the table.
\<close>

definition similar_item ::
  "anime list \<Rightarrow> int list \<Rightarrow> nat \<times> real \<Rightarrow> (int \<times> real) list \<Rightarrow> (int \<times> real) list" where
  "similar_item anime_data rated_anime_ids = (\<lambda>(idx, similarity) anime_scores.
     (let candidate_anime_id = a_anime_id (anime_data ! idx)
      in if candidate_anime_id \<notin> set rated_anime_ids
         then add_score anime_scores candidate_anime_id similarity
         else anime_scores))"

definition similar_scores ::
  "anime list \<Rightarrow> real list list \<Rightarrow> int list \<Rightarrow> int list \<Rightarrow> (int \<times> real) list" where
  "similar_scores anime_data similarity_matrix liked_anime_ids rated_anime_ids =
     fold (\<lambda>anime_id anime_scores.
             case list_index (map a_anime_id anime_data) anime_id of
               None \<Rightarrow> anime_scores
             | Some anime_idx \<Rightarrow>
                 fold (similar_item anime_data rated_anime_ids)
                   (enumerate 0 (similarity_matrix ! anime_idx)) anime_scores)
       liked_anime_ids []"

definition get_similar_anime ::
  "data_provider \<Rightarrow> anime list \<Rightarrow> real list list \<Rightarrow> int list \<Rightarrow> rating_row list \<Rightarrow> int
     \<Rightarrow> error + recommendation list" where
  "get_similar_anime dp anime_data similarity_matrix liked_anime_ids user_ratings n_recommendations =
     (let rated_anime_ids = map r_anime_id user_ratings;
          anime_scores = similar_scores anime_data similarity_matrix liked_anime_ids rated_anime_ids
      in collect_recommendations ''content_based'' dp
           (py_prefix n_recommendations (sorted_reverse snd anime_scores)))"

text \<open>\<open>ContentBasedFiltering.get_recommendations\<close>.\<close>

definition cb_get_recommendations ::
  "sklearn \<Rightarrow> data_provider \<Rightarrow> int \<Rightarrow> int \<Rightarrow> error + recommendation list" where
  "cb_get_recommendations lib dp user_id n_recommendations =
     (case build_similarity_matrix lib dp of
        Inl e \<Rightarrow> Inl e
      | Inr (anime_data, similarity_matrix) \<Rightarrow>
          (case get_user_ratings dp user_id of
             Inl e \<Rightarrow> Inl e
           | Inr user_ratings \<Rightarrow>
               if user_ratings = [] then get_popular_recommendations dp n_recommendations
               else
                 (let high_rated_anime =
                        map r_anime_id (filter (\<lambda>r. r_rating r \<ge> 7) user_ratings)
                  in if high_rated_anime = []
                     then get_popular_recommendations dp n_recommendations
                     else get_similar_anime dp anime_data similarity_matrix high_rated_anime
                            user_ratings n_recommendations)))"

section \<open>Hybrid combiner\<close>

text \<open>
  The two weights are attributes of the \<open>HybridRecommender\<close> object, written by
  \<open>get_personalized_recommendations\<close>. Its two engines are built with the default bounds
  \<open>max_users = 10000\<close> and \<open>max_anime = 5000\<close>.
\<close>

record hybrid_recommender =
  collaborative_weight :: real
  content_weight :: real

definition default_max_users :: nat where
  "default_max_users = 10000"

definition default_max_anime :: nat where
  "default_max_anime = 5000"

text \<open>\<open>HybridRecommender(data_provider)\<close> with the default weights of the constructor.\<close>

definition new_hybrid_recommender :: hybrid_recommender where
  "new_hybrid_recommender = \<lparr> collaborative_weight = 0.6, content_weight = 0.4 \<rparr>"

text \<open>
  The dict \<open>anime_scores\<close> of \<open>_combine_recommendations\<close>, in insertion order: the item id,
  then \<open>collaborative_score\<close>, \<open>content_score\<close> and \<open>anime_info\<close>. An id that is not yet a
  key is entered with both scores \<open>0\<close> and the record at hand; then the score of the side
  at hand is overwritten with \<open>rec.get('similarity_score', 0)\<close>.
\<close>

fun put_collaborative ::
  "(int \<times> real \<times> real \<times> recommendation) list \<Rightarrow> recommendation
     \<Rightarrow> (int \<times> real \<times> real \<times> recommendation) list" where
  "put_collaborative [] r = [(rec_anime_id r, get_or (similarity_score r) 0, 0, r)]"
| "put_collaborative ((k, c, t, info) # rest) r =
     (if k = rec_anime_id r then (k, get_or (similarity_score r) 0, t, info) # rest
      else (k, c, t, info) # put_collaborative rest r)"

fun put_content ::
  "(int \<times> real \<times> real \<times> recommendation) list \<Rightarrow> recommendation
     \<Rightarrow> (int \<times> real \<times> real \<times> recommendation) list" where
  "put_content [] r = [(rec_anime_id r, 0, get_or (similarity_score r) 0, r)]"
| "put_content ((k, c, t, info) # rest) r =
     (if k = rec_anime_id r then (k, c, get_or (similarity_score r) 0, info) # rest
      else (k, c, t, info) # put_content rest r)"

definition combine_scores ::
  "recommendation list \<Rightarrow> recommendation list \<Rightarrow> (int \<times> real \<times> real \<times> recommendation) list" where
  "combine_scores collaborative_recs content_recs =
     fold (\<lambda>r d. put_content d r) content_recs
       (fold (\<lambda>r d. put_collaborative d r) collaborative_recs [])"

definition hybrid_record ::
  "hybrid_recommender \<Rightarrow> int \<times> real \<times> real \<times> recommendation \<Rightarrow> recommendation" where
  "hybrid_record h = (\<lambda>(anime_id, c, t, info).
     info \<lparr> hybrid_score := Some (collaborative_weight h * c + content_weight h * t),
            collaborative_score := Some c,
            content_score := Some t,
            recommendation_type := ''hybrid'' \<rparr>)"

text \<open>\<open>_combine_recommendations\<close>.\<close>

definition combine_recommendations ::
  "hybrid_recommender \<Rightarrow> recommendation list \<Rightarrow> recommendation list \<Rightarrow> int
     \<Rightarrow> recommendation list" where
  "combine_recommendations h collaborative_recs content_recs n_recommendations =
     py_prefix n_recommendations
       (sorted_reverse (\<lambda>r. get_or (hybrid_score r) 0)
          (map (hybrid_record h) (combine_scores collaborative_recs content_recs)))"

text \<open>\<open>HybridRecommender.get_recommendations\<close>.\<close>

definition hybrid_get_recommendations ::
  "sklearn \<Rightarrow> data_provider \<Rightarrow> hybrid_recommender \<Rightarrow> int \<Rightarrow> int \<Rightarrow> error + recommendation list" where
  "hybrid_get_recommendations lib dp h user_id n_recommendations =
     (case cf_get_recommendations lib default_max_users default_max_anime dp user_id
             (n_recommendations * 2) of
        Inl e \<Rightarrow> Inl e
      | Inr collaborative_recs \<Rightarrow>
          (case cb_get_recommendations lib dp user_id (n_recommendations * 2) of
             Inl e \<Rightarrow> Inl e
           | Inr content_recs \<Rightarrow>
               Inr (combine_recommendations h collaborative_recs content_recs n_recommendations)))"

text \<open>
  \<open>Series.std()\<close> of pandas: the sample standard deviation (\<open>ddof = 1\<close>), which is NaN for
  fewer than two values. NaN is \<open>None\<close>; a comparison with NaN is false.
\<close>

definition mean :: "real list \<Rightarrow> real" where
  "mean xs = sum_list xs / real (length xs)"

definition std :: "real list \<Rightarrow> real option" where
  "std xs =
     (if length xs < 2 then None
      else Some (sqrt (sum_list (map (\<lambda>x. (x - mean xs)\<^sup>2) xs) / real (length xs - 1))))"

definition nan_less :: "real option \<Rightarrow> real \<Rightarrow> bool" where
  "nan_less v c = (case v of None \<Rightarrow> False | Some x \<Rightarrow> x < c)"

definition nan_greater :: "real option \<Rightarrow> real \<Rightarrow> bool" where
  "nan_greater v c = (case v of None \<Rightarrow> False | Some x \<Rightarrow> x > c)"

text \<open>
  \<open>get_personalized_recommendations\<close> returns the object after the call and what the call
  returns or raises. The weights are written before the recommendations are computed, so
  they stay written when that raises.
\<close>

definition adapted_weights :: "real option \<Rightarrow> hybrid_recommender" where
  "adapted_weights rating_std =
     (if nan_less rating_std 1.0
      then \<lparr> collaborative_weight = 0.3, content_weight = 0.7 \<rparr>
      else if nan_greater rating_std 2.0
      then \<lparr> collaborative_weight = 0.8, content_weight = 0.2 \<rparr>
      else \<lparr> collaborative_weight = 0.6, content_weight = 0.4 \<rparr>)"

definition get_personalized_recommendations ::
  "sklearn \<Rightarrow> data_provider \<Rightarrow> hybrid_recommender \<Rightarrow> int \<Rightarrow> int
     \<Rightarrow> hybrid_recommender \<times> (error + recommendation list)" where
  "get_personalized_recommendations lib dp h user_id n_recommendations =
     (case get_user_ratings dp user_id of
        Inl e \<Rightarrow> (h, Inl e)
      | Inr user_ratings \<Rightarrow>
          if user_ratings = []
          then (h, hybrid_get_recommendations lib dp h user_id n_recommendations)
          else
            (let rating_std = std (map r_rating user_ratings);
                 h' = adapted_weights rating_std
             in (h', hybrid_get_recommendations lib dp h' user_id n_recommendations)))"

section \<open>Recommendation service\<close>

text \<open>
  The state of a \<open>RecommendationService\<close>: its data provider, the weights of its hybrid
  strategy object, and \<open>user_ratings_cache\<close>. The keys of \<open>self.strategies\<close> are fixed by the
  constructor.
\<close>

record recommendation_service =
  provider :: data_provider
  hybrid :: hybrid_recommender
  user_ratings_cache :: "int \<Rightarrow> rating_row list option"

definition new_service :: "data_provider \<Rightarrow> recommendation_service" where
  "new_service dp =
     \<lparr> provider = dp, hybrid = new_hybrid_recommender, user_ratings_cache = (\<lambda>u. None) \<rparr>"

definition strategies :: "string list" where
  "strategies = [''collaborative'', ''content'', ''hybrid'']"

text \<open>\<open>self.strategies[strategy].get_recommendations(user_id, n_recommendations)\<close>.\<close>

definition strategy_get_recommendations ::
  "sklearn \<Rightarrow> recommendation_service \<Rightarrow> string \<Rightarrow> int \<Rightarrow> int \<Rightarrow> error + recommendation list" where
  "strategy_get_recommendations lib svc strategy user_id n_recommendations =
     (if strategy = ''collaborative''
      then cf_get_recommendations lib default_max_users default_max_anime (provider svc)
             user_id n_recommendations
      else if strategy = ''content''
      then cb_get_recommendations lib (provider svc) user_id n_recommendations
      else hybrid_get_recommendations lib (provider svc) (hybrid svc) user_id n_recommendations)"

text \<open>
  The service's \<open>get_popular_anime\<close>: the first rows of \<open>get_popular_anime(min_ratings=100)\<close>,
  type \<open>popular\<close>, no \<open>similarity_score\<close> key. \<open>_get_fallback_recommendations\<close> is this list.
\<close>

definition service_get_popular_anime ::
  "recommendation_service \<Rightarrow> int \<Rightarrow> error + recommendation list" where
  "service_get_popular_anime svc n_recommendations =
     (case get_popular_anime (provider svc) 100 of
        Inl e \<Rightarrow> Inl e
      | Inr popular_anime \<Rightarrow>
          Inr (map (\<lambda>a. make_recommendation (a_anime_id a) a None ''popular'')
                 (py_prefix n_recommendations popular_anime)))"

definition get_fallback_recommendations ::
  "recommendation_service \<Rightarrow> int \<Rightarrow> error + recommendation list" where
  "get_fallback_recommendations svc n_recommendations =
     service_get_popular_anime svc n_recommendations"

text \<open>
  \<open>RecommendationService.get_recommendations\<close>: \<open>except Exception\<close> catches every error of
  the strategy; an error of the fallback, raised inside the handler, is not caught.
\<close>

definition get_recommendations ::
  "sklearn \<Rightarrow> recommendation_service \<Rightarrow> int \<Rightarrow> string \<Rightarrow> int \<Rightarrow> error + recommendation list" where
  "get_recommendations lib svc user_id strategy n_recommendations =
     (if strategy \<notin> set strategies then Inl (ValueError strategy)
      else
        (case strategy_get_recommendations lib svc strategy user_id n_recommendations of
           Inr recommendations \<Rightarrow> Inr recommendations
         | Inl e \<Rightarrow> get_fallback_recommendations svc n_recommendations))"

text \<open>
  \<open>add_rating\<close>: the entry of the user's cached list with this item id is replaced, or the
  new rating is appended. Nothing in the body raises, so the call returns \<open>True\<close>.
\<close>

definition add_rating ::
  "recommendation_service \<Rightarrow> int \<Rightarrow> int \<Rightarrow> real \<Rightarrow> recommendation_service \<times> bool" where
  "add_rating svc user_id anime_id rating =
     (let cached = (case user_ratings_cache svc user_id of None \<Rightarrow> [] | Some rs \<Rightarrow> rs);
          existing_rating = list_index (map r_anime_id cached) anime_id;
          new_rating = \<lparr> r_user_id = user_id, r_anime_id = anime_id, r_rating = rating \<rparr>;
          cached' = (case existing_rating of
                       Some i \<Rightarrow> cached[i := new_rating]
                     | None \<Rightarrow> cached @ [new_rating])
      in (svc \<lparr> user_ratings_cache := (user_ratings_cache svc)(user_id \<mapsto> cached') \<rparr>, True))"

text \<open>A sequence of \<open>add_rating\<close> calls, each given as (user id, item id, rating).\<close>

definition add_ratings ::
  "recommendation_service \<Rightarrow> (int \<times> int \<times> real) list \<Rightarrow> recommendation_service" where
  "add_ratings svc calls =
     fold (\<lambda>(user_id, anime_id, rating) s. fst (add_rating s user_id anime_id rating)) calls svc"

text \<open>
  The service's \<open>get_user_ratings\<close>: the cached list when the user has one; otherwise the
  provider's rows, which are cached when there are any.
\<close>

definition service_get_user_ratings ::
  "recommendation_service \<Rightarrow> int \<Rightarrow> recommendation_service \<times> (error + rating_row list)" where
  "service_get_user_ratings svc user_id =
     (case user_ratings_cache svc user_id of
        Some rs \<Rightarrow> (svc, Inr rs)
      | None \<Rightarrow>
          (case get_user_ratings (provider svc) user_id of
             Inl e \<Rightarrow> (svc, Inl e)
           | Inr ratings \<Rightarrow>
               if ratings \<noteq> []
               then (svc \<lparr> user_ratings_cache := (user_ratings_cache svc)(user_id \<mapsto> ratings) \<rparr>,
                     Inr ratings)
               else (svc, Inr [])))"

section \<open>The fusion in the words of the specification\<close>

text \<open>
  The score a side contributes for an item: the score of the side's record with that item
  id (of the last one, should the list hold several), and \<open>0\<close> when the side has no record
  of the item or the record has no score.
\<close>

definition side_score :: "recommendation list \<Rightarrow> int \<Rightarrow> real" where
  "side_score recs anime_id =
     (case find (\<lambda>r. rec_anime_id r = anime_id) (rev recs) of
        None \<Rightarrow> 0
      | Some r \<Rightarrow> get_or (similarity_score r) 0)"

text \<open>\<open>w_collab * collab_score + w_content * content_score\<close>.\<close>

definition fused_score ::
  "hybrid_recommender \<Rightarrow> recommendation list \<Rightarrow> recommendation list \<Rightarrow> int \<Rightarrow> real" where
  "fused_score h collaborative_recs content_recs anime_id =
     collaborative_weight h * side_score collaborative_recs anime_id
     + content_weight h * side_score content_recs anime_id"

section \<open>The scoring loops without their error branch\<close>

text \<open>\<open>d.get(key, 0)\<close> on a dict of scores.\<close>

definition score_of :: "(int \<times> real) list \<Rightarrow> int \<Rightarrow> real" where
  "score_of d a = (case map_of d a of None \<Rightarrow> 0 | Some s \<Rightarrow> s)"

text \<open>
  The body of the inner loop and the inner loop itself of the collaborative scoring, for an
  item mapping in which every column index is found (\<open>ids\<close> lists the item ids by column):
  this is what \<open>score_item\<close> and \<open>score_neighbour\<close> compute on the mappings the engine builds.
\<close>

definition item_step ::
  "int list \<Rightarrow> real list \<Rightarrow> real \<Rightarrow> nat \<times> real \<Rightarrow> (int \<times> real) list \<Rightarrow> (int \<times> real) list" where
  "item_step ids ur sim = (\<lambda>(j, r) d.
     if r > 0 \<and> ur ! j = 0 then add_score d (ids ! j) (sim * r) else d)"

definition neighbour_step ::
  "int list \<Rightarrow> real list list \<Rightarrow> real list \<Rightarrow> real list \<Rightarrow> nat \<Rightarrow> (int \<times> real) list
     \<Rightarrow> (int \<times> real) list" where
  "neighbour_step ids R sims ur v d = fold (item_step ids ur (sims ! v)) (enumerate 0 (R ! v)) d"

section \<open>Example inputs\<close>

text \<open>An item row with every column, and the rating rows of users \<open>0, \<dots>, n - 1\<close> for one item.\<close>

definition item :: "int \<Rightarrow> real \<Rightarrow> anime" where
  "item anime_id rating =
     \<lparr> a_anime_id = anime_id, a_name = Some ''title'', a_genre = Some ''Drama'',
       a_type = Some ''TV'', a_episodes = Some 12, a_rating = Some rating \<rparr>"

definition ratings_by :: "nat \<Rightarrow> int \<Rightarrow> real \<Rightarrow> rating_row list" where
  "ratings_by n anime_id rating =
     map (\<lambda>u. \<lparr> r_user_id = int u, r_anime_id = anime_id, r_rating = rating \<rparr>) [0..<n]"

text \<open>
  Two items, the first with aggregate rating 5 and the second with 9, each rated by a hundred
  users.
\<close>

definition two_items_provider :: data_provider where
  "two_items_provider =
     \<lparr> anime_file = Some [item 1 5, item 2 9],
       rating_file = Some (ratings_by 100 1 8 @ ratings_by 100 2 8),
       sample_size = None \<rparr>"


definition ones_library :: sklearn where
  "ones_library =
     \<lparr> cosine_similarity = (\<lambda>matrix. Inr (\<lambda>i j. 1)),
       item_similarity = (\<lambda>anime_data. Inr (\<lambda>i j. 1)) \<rparr>"


text \<open>
  Three users with the rating histories \<open>[9, 9, 9, 9]\<close>, \<open>[1, 10, 2, 9]\<close> and
  \<open>[5, 6, 7]\<close>.
\<close>

definition rated :: "int \<Rightarrow> (int \<times> real) list \<Rightarrow> rating_row list" where
  "rated user_id ratings =
     map (\<lambda>(anime_id, rating). \<lparr> r_user_id = user_id, r_anime_id = anime_id, r_rating = rating \<rparr>)
       ratings"

definition three_users_provider :: data_provider where
  "three_users_provider =
     \<lparr> anime_file = Some [item 1 5, item 2 9],
       rating_file = Some (rated 1 [(1, 9), (2, 9), (3, 9), (4, 9)]
                          @ rated 2 [(1, 1), (2, 10), (3, 2), (4, 9)]
                          @ rated 3 [(1, 5), (2, 6), (3, 7)]),
       sample_size = None \<rparr>"

text \<open>A record as an engine returns it, with a given score and type.\<close>

definition scored :: "int \<Rightarrow> real \<Rightarrow> string \<Rightarrow> recommendation" where
  "scored anime_id score rtype = make_recommendation anime_id (item anime_id 7) (Some score) rtype"

text \<open>
  Three users and three items. Users 1 and 2 both rate item 10 with 3 and item 20 with 4;
  user 3 rates item 10 with 4 and item 30 with 3. The rows of the rating matrix are
  \<open>(3, 4, 0)\<close>, \<open>(3, 4, 0)\<close> and \<open>(4, 0, 3)\<close>, each of norm 5, so the cosine similarity is
  \<open>1\<close> between users 1 and 2 and \<open>12 / 25\<close> between either of them and user 3: this is what
  the library returns here.
\<close>

definition three_raters_provider :: data_provider where
  "three_raters_provider =
     \<lparr> anime_file = Some [item 10 7, item 20 7, item 30 7],
       rating_file = Some (rated 1 [(10, 3), (20, 4)] @ rated 2 [(10, 3), (20, 4)]
                          @ rated 3 [(10, 4), (30, 3)]),
       sample_size = None \<rparr>"

definition three_raters_library :: sklearn where
  "three_raters_library =
     \<lparr> cosine_similarity =
         (\<lambda>matrix. Inr (\<lambda>i j. if i = j \<or> (i < 2 \<and> j < 2) then 1 else 12 / 25)),
       item_similarity = (\<lambda>anime_data. Inr (\<lambda>i j. if i = j then 1 else 1 / 2)) \<rparr>"

text \<open>What \<open>_compute_user_similarity\<close> leaves on the engine for these tables.\<close>

definition three_raters_model :: cf_model where
  "three_raters_model =
     \<lparr> user_mapping = [(1, 0), (2, 1), (3, 2)],
       anime_mapping = [(10, 0), (20, 1), (30, 2)],
       rating_matrix = [[3, 4, 0], [3, 4, 0], [4, 0, 3]],
       user_similarity_matrix = [[1, 1, 12 / 25], [1, 1, 12 / 25], [12 / 25, 12 / 25, 1]] \<rparr>"

section \<open>Auxiliary facts\<close>

lemma group_sizes_iff:
  "(k, c) \<in> set (group_sizes ks) \<longleftrightarrow> k \<in> set ks \<and> c = count_list ks k"
  by (auto simp: group_sizes_def)

lemma popular_ids_iff:
  "k \<in> set (map fst (filter (\<lambda>(anime_id, rating_count). m \<le> int rating_count) (group_sizes ks)))
     \<longleftrightarrow> k \<in> set ks \<and> m \<le> int (count_list ks k)"
  by (force simp: group_sizes_iff)

lemma get_popular_anime_eq:
  assumes "load_rating_data dp = Inr rating_data" and "load_anime_data dp = Inr anime_data"
  shows "get_popular_anime dp min_ratings =
           Inr (filter (\<lambda>a. a_anime_id a \<in> set (map r_anime_id rating_data)
                     \<and> min_ratings \<le> int (count_list (map r_anime_id rating_data) (a_anime_id a)))
                  anime_data)"
  using assms popular_ids_iff [of _ min_ratings "map r_anime_id rating_data"]
  by (simp add: get_popular_anime_def Let_def)

lemma count_list_ratings_by:
  "count_list (map r_anime_id (ratings_by n a r)) b = (if a = b then n else 0)"
  unfolding ratings_by_def by (induction n) auto

lemma set_ratings_by:
  "b \<in> r_anime_id ` set (ratings_by n a r) \<longleftrightarrow> 0 < n \<and> a = b"
  unfolding ratings_by_def by (auto simp: image_image)


lemma two_items_loads:
  "load_rating_data two_items_provider = Inr (ratings_by 100 1 8 @ ratings_by 100 2 8)"
  "load_anime_data two_items_provider = Inr [item 1 5, item 2 9]"
  by (simp_all add: two_items_provider_def load_rating_data_def load_anime_data_def)



lemma list_index_Some:
  "list_index xs v = Some i \<Longrightarrow> i < length xs \<and> xs ! i = v"
proof (induction xs arbitrary: i)
  case Nil
  then show ?case by simp
next
  case (Cons x xs)
  show ?case
  proof (cases "x = v")
    case True
    with Cons.prems show ?thesis by simp
  next
    case False
    with Cons.prems obtain j where j: "list_index xs v = Some j" and i: "i = Suc j"
      by auto
    from Cons.IH [OF j] i show ?thesis by simp
  qed
qed

lemma add_rating_frame:
  "provider (fst (add_rating svc u a r)) = provider svc
   \<and> hybrid (fst (add_rating svc u a r)) = hybrid svc"
  by (simp add: add_rating_def Let_def)

lemma add_ratings_frame:
  "provider (add_ratings svc calls) = provider svc \<and> hybrid (add_ratings svc calls) = hybrid svc"
  unfolding add_ratings_def
proof (induction calls arbitrary: svc)
  case Nil
  then show ?case by simp
next
  case (Cons c calls)
  obtain u a r where c: "c = (u, a, r)" by (cases c) auto
  show ?case using Cons.IH [of "fst (add_rating svc u a r)"] add_rating_frame [of svc u a r]
    by (simp add: c)
qed

lemma get_recommendations_frame:
  assumes "provider svc' = provider svc" and "hybrid svc' = hybrid svc"
  shows "get_recommendations lib svc' user_id strategy k =
         get_recommendations lib svc user_id strategy k"
proof -
  have engine: "strategy_get_recommendations lib svc' strategy user_id k =
      strategy_get_recommendations lib svc strategy user_id k"
    unfolding strategy_get_recommendations_def using assms by simp
  have fallback: "get_fallback_recommendations svc' k = get_fallback_recommendations svc k"
    unfolding get_fallback_recommendations_def service_get_popular_anime_def using assms by simp
  show ?thesis
    unfolding get_recommendations_def engine fallback ..
qed

lemma add_rating_cached:
  "\<exists>rs. user_ratings_cache (fst (add_rating svc u a r)) u = Some rs
        \<and> \<lparr> r_user_id = u, r_anime_id = a, r_rating = r \<rparr> \<in> set rs"
proof -
  define cached where "cached = (case user_ratings_cache svc u of None \<Rightarrow> [] | Some rs \<Rightarrow> rs)"
  define new_rating where "new_rating = \<lparr> r_user_id = u, r_anime_id = a, r_rating = r \<rparr>"
  define cached' where "cached' = (case list_index (map r_anime_id cached) a of
                       Some i \<Rightarrow> cached[i := new_rating]
                     | None \<Rightarrow> cached @ [new_rating])"
  have cache: "user_ratings_cache (fst (add_rating svc u a r)) u = Some cached'"
    unfolding cached'_def cached_def new_rating_def add_rating_def Let_def by simp
  have "new_rating \<in> set cached'"
  proof (cases "list_index (map r_anime_id cached) a")
    case None
    then show ?thesis by (simp add: cached'_def)
  next
    case (Some i)
    then have "i < length cached" using list_index_Some [OF Some] by simp
    then show ?thesis using Some by (simp add: cached'_def set_update_memI)
  qed
  then show ?thesis using cache unfolding new_rating_def by blast
qed

lemma adapted_weights_cases:
  "(\<forall>s. v = Some s \<and> s < 1 \<longrightarrow>
       adapted_weights v = \<lparr> collaborative_weight = 0.3, content_weight = 0.7 \<rparr>)
   \<and> (\<forall>s. v = Some s \<and> 2 < s \<longrightarrow>
       adapted_weights v = \<lparr> collaborative_weight = 0.8, content_weight = 0.2 \<rparr>)
   \<and> (v = None \<or> (\<exists>s. v = Some s \<and> 1 \<le> s \<and> s \<le> 2) \<longrightarrow>
       adapted_weights v = \<lparr> collaborative_weight = 0.6, content_weight = 0.4 \<rparr>)"
  by (auto simp: adapted_weights_def nan_less_def nan_greater_def)

lemma sqrt_gt_2: "4 < x \<Longrightarrow> 2 < sqrt x"
  by (rule real_less_rsqrt) simp

lemma three_users_ratings:
  "get_user_ratings three_users_provider 1 = Inr (rated 1 [(1, 9), (2, 9), (3, 9), (4, 9)])"
  "get_user_ratings three_users_provider 2 = Inr (rated 2 [(1, 1), (2, 10), (3, 2), (4, 9)])"
  "get_user_ratings three_users_provider 3 = Inr (rated 3 [(1, 5), (2, 6), (3, 7)])"
  by (simp_all add: get_user_ratings_def load_rating_data_def three_users_provider_def rated_def)

lemma three_users_std:
  "std (map r_rating (rated 1 [(1, 9), (2, 9), (3, 9), (4, 9)])) = Some 0"
  "\<exists>s. std (map r_rating (rated 2 [(1, 1), (2, 10), (3, 2), (4, 9)])) = Some s \<and> 2 < s"
  "std (map r_rating (rated 3 [(1, 5), (2, 6), (3, 7)])) = Some 1"
  by (simp_all add: std_def mean_def rated_def power2_eq_square sqrt_gt_2)

lemma side_score_snoc:
  "side_score (recs @ [r]) k =
     (if rec_anime_id r = k then get_or (similarity_score r) 0 else side_score recs k)"
  by (simp add: side_score_def)

lemma side_score_absent:
  "k \<notin> rec_anime_id ` set recs \<Longrightarrow> side_score recs k = 0"
  by (induction recs rule: rev_induct) (auto simp: side_score_snoc, simp add: side_score_def)

lemma keys_put_collaborative:
  "map fst (put_collaborative d r) =
     (if rec_anime_id r \<in> set (map fst d) then map fst d else map fst d @ [rec_anime_id r])"
  by (induction d r rule: put_collaborative.induct) auto

lemma keys_put_content:
  "map fst (put_content d r) =
     (if rec_anime_id r \<in> set (map fst d) then map fst d else map fst d @ [rec_anime_id r])"
  by (induction d r rule: put_content.induct) auto

lemma map_of_put_collaborative:
  "map_of (put_collaborative d r) k =
     (if k = rec_anime_id r
      then Some (case map_of d k of
                   None \<Rightarrow> (get_or (similarity_score r) 0, 0, r)
                 | Some (c, t, info) \<Rightarrow> (get_or (similarity_score r) 0, t, info))
      else map_of d k)"
  by (induction d r rule: put_collaborative.induct) auto

lemma map_of_put_content:
  "map_of (put_content d r) k =
     (if k = rec_anime_id r
      then Some (case map_of d k of
                   None \<Rightarrow> (0, get_or (similarity_score r) 0, r)
                 | Some (c, t, info) \<Rightarrow> (c, get_or (similarity_score r) 0, info))
      else map_of d k)"
  by (induction d r rule: put_content.induct) auto


lemma distinct_put_collaborative:
  "distinct (map fst d) \<Longrightarrow> distinct (map fst (put_collaborative d r))"
  by (simp add: keys_put_collaborative)

lemma distinct_put_content:
  "distinct (map fst d) \<Longrightarrow> distinct (map fst (put_content d r))"
  by (simp add: keys_put_content)

lemma collaborative_entries:
  fixes cr :: "recommendation list"
  defines "d \<equiv> fold (\<lambda>r d. put_collaborative d r) cr []"
  shows "distinct (map fst d) \<and> set (map fst d) = rec_anime_id ` set cr
    \<and> (\<forall>k c t info. map_of d k = Some (c, t, info) \<longrightarrow>
          c = side_score cr k \<and> t = 0 \<and> rec_anime_id info = k \<and> info \<in> set cr)"
  unfolding d_def
proof (induction cr rule: rev_induct)
  case Nil
  then show ?case by simp
next
  case (snoc r cr)
  let ?d = "fold (\<lambda>r d. put_collaborative d r) cr []"
  have step: "fold (\<lambda>r d. put_collaborative d r) (cr @ [r]) [] = put_collaborative ?d r"
    by simp
  have dist: "distinct (map fst (put_collaborative ?d r))"
    using snoc by (simp add: distinct_put_collaborative)
  have keys: "set (map fst (put_collaborative ?d r)) = rec_anime_id ` set (cr @ [r])"
    using snoc by (auto simp: keys_put_collaborative)
  have entries: "\<forall>k c t info. map_of (put_collaborative ?d r) k = Some (c, t, info) \<longrightarrow>
          c = side_score (cr @ [r]) k \<and> t = 0 \<and> rec_anime_id info = k \<and> info \<in> set (cr @ [r])"
    using snoc
    by (auto simp: map_of_put_collaborative side_score_snoc split: if_splits option.splits)
  show ?case unfolding step using dist keys entries by blast
qed

lemma combine_scores_snoc:
  "combine_scores cr (tr @ [r]) = put_content (combine_scores cr tr) r"
  by (simp add: combine_scores_def)

lemma combine_scores_entries:
  "distinct (map fst (combine_scores cr tr))
    \<and> set (map fst (combine_scores cr tr)) = rec_anime_id ` set cr \<union> rec_anime_id ` set tr
    \<and> (\<forall>k c t info. map_of (combine_scores cr tr) k = Some (c, t, info) \<longrightarrow>
          c = side_score cr k \<and> t = side_score tr k \<and> rec_anime_id info = k
          \<and> info \<in> set cr \<union> set tr)"
proof (induction tr rule: rev_induct)
  case Nil
  have "combine_scores cr [] = fold (\<lambda>r d. put_collaborative d r) cr []"
    by (simp add: combine_scores_def)
  then show ?case using collaborative_entries [of cr] by (simp add: side_score_def)
next
  case (snoc r tr)
  let ?d = "combine_scores cr tr"
  have dist: "distinct (map fst (put_content ?d r))"
    using snoc by (simp add: distinct_put_content)
  have keys: "set (map fst (put_content ?d r)) =
      rec_anime_id ` set cr \<union> rec_anime_id ` set (tr @ [r])"
    using snoc by (auto simp: keys_put_content)
  have absent: "map_of ?d (rec_anime_id r) = None \<Longrightarrow> side_score cr (rec_anime_id r) = 0"
  proof -
    assume "map_of ?d (rec_anime_id r) = None"
    then have "rec_anime_id r \<notin> set (map fst ?d)"
      by (simp add: map_of_eq_None_iff)
    then have "rec_anime_id r \<notin> rec_anime_id ` set cr" using snoc by blast
    then show ?thesis by (rule side_score_absent)
  qed
  have entries: "\<forall>k c t info. map_of (put_content ?d r) k = Some (c, t, info) \<longrightarrow>
          c = side_score cr k \<and> t = side_score (tr @ [r]) k \<and> rec_anime_id info = k
          \<and> info \<in> set cr \<union> set (tr @ [r])"
    using snoc absent
    by (auto simp: map_of_put_content side_score_snoc split: if_splits option.splits)
  show ?case unfolding combine_scores_snoc using dist keys entries by blast
qed


lemma py_prefix_take: "\<exists>m. py_prefix n xs = take m xs"
  by (auto simp: py_prefix_def)

lemma length_py_prefix: "0 \<le> n \<Longrightarrow> length (py_prefix n xs) \<le> nat n"
  by (simp add: py_prefix_def)

lemma set_sorted_reverse: "set (sorted_reverse key xs) = set xs"
  by (simp add: sorted_reverse_def)

lemma distinct_map_sorted_reverse:
  "distinct (map g (sorted_reverse key xs)) = distinct (map g xs)"
  by (simp add: sorted_reverse_def distinct_map)

lemma sorted_sorted_reverse:
  "sorted_wrt (\<lambda>a b. key b \<le> key a) (sorted_reverse key xs)"
proof -
  have "sorted (map (\<lambda>x. - key x) (sort_key (\<lambda>x. - key x) xs))"
    by (rule sorted_sort_key)
  then show ?thesis by (simp add: sorted_reverse_def sorted_map)
qed

lemma hybrid_record_fields:
  "rec_anime_id (hybrid_record h (k, c, t, info)) = rec_anime_id info
   \<and> hybrid_score (hybrid_record h (k, c, t, info)) =
       Some (collaborative_weight h * c + content_weight h * t)
   \<and> recommendation_type (hybrid_record h (k, c, t, info)) = ''hybrid''"
  by (simp add: hybrid_record_def)

lemma combine_scores_member:
  assumes "(k, c, t, info) \<in> set (combine_scores cr tr)"
  shows "c = side_score cr k \<and> t = side_score tr k \<and> rec_anime_id info = k"
proof -
  have "map_of (combine_scores cr tr) k = Some (c, t, info)"
    using assms combine_scores_entries [of cr tr] by (simp add: map_of_is_SomeI)
  then show ?thesis using combine_scores_entries [of cr tr] by blast
qed

lemma hybrid_records_ids:
  "map rec_anime_id (map (hybrid_record h) (combine_scores cr tr)) =
     map fst (combine_scores cr tr)"
proof -
  have "\<forall>e \<in> set (combine_scores cr tr). rec_anime_id (hybrid_record h e) = fst e"
  proof
    fix e assume e: "e \<in> set (combine_scores cr tr)"
    obtain k c t info where eq: "e = (k, c, t, info)" by (cases e) auto
    show "rec_anime_id (hybrid_record h e) = fst e"
      using combine_scores_member [of k c t info cr tr] e
      by (simp add: eq hybrid_record_fields)
  qed
  then show ?thesis by simp
qed

lemma hybrid_records_scores:
  assumes "r \<in> set (map (hybrid_record h) (combine_scores cr tr))"
  shows "hybrid_score r = Some (fused_score h cr tr (rec_anime_id r))
         \<and> recommendation_type r = ''hybrid''"
proof -
  obtain e where e: "e \<in> set (combine_scores cr tr)" and r: "r = hybrid_record h e"
    using assms by auto
  obtain k c t info where eq: "e = (k, c, t, info)" by (cases e) auto
  show ?thesis
    using combine_scores_member [of k c t info cr tr] e
    by (simp add: r eq hybrid_record_fields fused_score_def)
qed


lemma fused_list:
  defines "fused \<equiv> (\<lambda>h cr tr. sorted_reverse (\<lambda>r. get_or (hybrid_score r) 0)
                      (map (hybrid_record h) (combine_scores cr tr)))"
  shows "combine_recommendations h cr tr k = py_prefix k (fused h cr tr)
    \<and> set (map rec_anime_id (fused h cr tr)) = rec_anime_id ` set cr \<union> rec_anime_id ` set tr
    \<and> distinct (map rec_anime_id (fused h cr tr))
    \<and> sorted_wrt (\<lambda>a b. fused_score h cr tr (rec_anime_id b)
                         \<le> fused_score h cr tr (rec_anime_id a)) (fused h cr tr)
    \<and> (\<forall>r \<in> set (fused h cr tr).
          hybrid_score r = Some (fused_score h cr tr (rec_anime_id r))
          \<and> recommendation_type r = ''hybrid'')"
proof -
  let ?H = "map (hybrid_record h) (combine_scores cr tr)"
  have set_eq: "set (fused h cr tr) = set ?H"
    by (simp add: fused_def set_sorted_reverse)
  have scores: "\<forall>r \<in> set (fused h cr tr).
          hybrid_score r = Some (fused_score h cr tr (rec_anime_id r))
          \<and> recommendation_type r = ''hybrid''"
    using hybrid_records_scores [of _ h cr tr] unfolding set_eq by blast
  have ids: "set (map rec_anime_id (fused h cr tr)) =
      rec_anime_id ` set cr \<union> rec_anime_id ` set tr"
  proof -
    have "set (map rec_anime_id (fused h cr tr)) = set (map rec_anime_id ?H)"
      unfolding set_map set_eq ..
    also have "\<dots> = set (map fst (combine_scores cr tr))"
      by (simp only: hybrid_records_ids)
    finally show ?thesis using combine_scores_entries [of cr tr] by simp
  qed
  have dist: "distinct (map rec_anime_id (fused h cr tr))"
    unfolding fused_def distinct_map_sorted_reverse hybrid_records_ids
    using combine_scores_entries [of cr tr] by simp
  have "sorted_wrt (\<lambda>a b. get_or (hybrid_score b) 0 \<le> get_or (hybrid_score a) 0)
          (fused h cr tr)"
    unfolding fused_def by (rule sorted_sorted_reverse)
  then have sorted: "sorted_wrt (\<lambda>a b. fused_score h cr tr (rec_anime_id b)
                         \<le> fused_score h cr tr (rec_anime_id a)) (fused h cr tr)"
    by (rule sorted_wrt_mono_rel [rotated]) (use scores in \<open>simp add: get_or_def\<close>)
  have "combine_recommendations h cr tr k = py_prefix k (fused h cr tr)"
    by (simp add: combine_recommendations_def fused_def)
  then show ?thesis using ids dist sorted scores by blast
qed

lemma keys_group_sizes: "set (map fst (group_sizes ks)) = set ks"
  by (auto simp: group_sizes_def image_image)

lemma keys_nlargest: "set (map fst (nlargest n counts)) \<subseteq> set (map fst counts)"
proof -
  have "set (take n (sort_key (\<lambda>(k, c). - int c) counts)) \<subseteq> set counts"
    using set_take_subset [of n "sort_key (\<lambda>(k, c). - int c) counts"] by simp
  then show ?thesis unfolding nlargest_def by auto
qed

lemma user_mapping_create:
  "fst (create_rating_matrix max_users max_anime rating_data) =
     zip (map fst (nlargest max_users (group_sizes (map r_user_id rating_data))))
       [0..<length (map fst (nlargest max_users (group_sizes (map r_user_id rating_data))))]"
  by (simp add: create_rating_matrix_def Let_def)

lemma unrated_user_unmapped:
  assumes "user_id \<notin> r_user_id ` set rating_data"
  shows "map_of (fst (create_rating_matrix max_users max_anime rating_data)) user_id = None"
proof -
  have "user_id \<notin> set (map fst (nlargest max_users (group_sizes (map r_user_id rating_data))))"
    using assms keys_nlargest [of max_users "group_sizes (map r_user_id rating_data)"]
      keys_group_sizes [of "map r_user_id rating_data"] by auto
  then show ?thesis unfolding user_mapping_create by simp
qed

lemma compute_user_similarity_mapping:
  assumes "compute_user_similarity lib max_users max_anime dp = Inr m"
    and "load_rating_data dp = Inr rating_data"
  shows "user_mapping m = fst (create_rating_matrix max_users max_anime rating_data)"
  using assms
  by (auto simp: compute_user_similarity_def split: sum.splits prod.splits)

lemma compute_user_similarity_ok:
  assumes "load_rating_data dp = Inr rating_data"
    and "load_anime_data dp = Inr anime_data"
    and "cosine_similarity lib (snd (snd (create_rating_matrix max_users max_anime rating_data)))
           = Inr entries"
  shows "\<exists>m. compute_user_similarity lib max_users max_anime dp = Inr m"
  using assms
  by (auto simp: compute_user_similarity_def split: sum.splits prod.splits)

lemma cf_cold_start:
  assumes "load_rating_data dp = Inr rating_data"
    and "load_anime_data dp = Inr anime_data"
    and "cosine_similarity lib (snd (snd (create_rating_matrix max_users max_anime rating_data)))
           = Inr entries"
    and "user_id \<notin> r_user_id ` set rating_data"
  shows "cf_get_recommendations lib max_users max_anime dp user_id k =
           get_popular_recommendations dp k"
proof -
  obtain m where m: "compute_user_similarity lib max_users max_anime dp = Inr m"
    using compute_user_similarity_ok [OF assms(1-3)] by blast
  have "map_of (user_mapping m) user_id = None"
    using compute_user_similarity_mapping [OF m assms(1)] unrated_user_unmapped [OF assms(4)]
    by simp
  then show ?thesis by (simp add: cf_get_recommendations_def m)
qed

lemma cb_cold_start:
  assumes "load_rating_data dp = Inr rating_data"
    and "load_anime_data dp = Inr anime_data"
    and "item_similarity lib anime_data = Inr entries"
    and "user_id \<notin> r_user_id ` set rating_data"
  shows "cb_get_recommendations lib dp user_id k = get_popular_recommendations dp k"
proof -
  have "filter (\<lambda>r. r_user_id r = user_id) rating_data = []"
    using assms(4) by (auto simp: filter_empty_conv)
  then show ?thesis
    using assms(1-3)
    by (simp add: cb_get_recommendations_def build_similarity_matrix_def get_user_ratings_def)
qed


lemma keys_fold_collaborative:
  "distinct (map rec_anime_id rs) \<Longrightarrow>
     map fst (fold (\<lambda>r d. put_collaborative d r) rs []) = map rec_anime_id rs"
proof (induction rs rule: rev_induct)
  case Nil
  then show ?case by simp
next
  case (snoc r rs)
  then have keys: "map fst (fold (\<lambda>r d. put_collaborative d r) rs []) = map rec_anime_id rs"
    and new: "rec_anime_id r \<notin> set (map rec_anime_id rs)"
    by simp_all
  show ?case using new by (simp add: keys_put_collaborative keys)
qed

lemma keys_fold_content:
  "set (map rec_anime_id ts) \<subseteq> set (map fst d) \<Longrightarrow>
     map fst (fold (\<lambda>r d. put_content d r) ts d) = map fst d"
proof (induction ts arbitrary: d)
  case Nil
  then show ?case by simp
next
  case (Cons t ts)
  have same: "map fst (put_content d t) = map fst d"
    using Cons.prems by (simp add: keys_put_content)
  have "set (map rec_anime_id ts) \<subseteq> set (map fst (put_content d t))"
    using Cons.prems unfolding same by simp
  from Cons.IH [OF this] show ?case by (simp add: same)
qed

lemma keys_combine_same:
  "distinct (map rec_anime_id rs) \<Longrightarrow> map fst (combine_scores rs rs) = map rec_anime_id rs"
  unfolding combine_scores_def
  by (subst keys_fold_content) (simp_all add: keys_fold_collaborative)

lemma side_score_zero:
  "\<forall>r \<in> set rs. similarity_score r = Some 0 \<Longrightarrow> side_score rs k = 0"
  by (induction rs rule: rev_induct) (simp_all add: side_score_snoc side_score_def get_or_def)

lemma map_py_prefix: "map f (py_prefix n xs) = py_prefix n (map f xs)"
  by (simp add: py_prefix_def take_map)

lemma combine_same_zero:
  assumes "distinct (map rec_anime_id rs)" and "\<forall>r \<in> set rs. similarity_score r = Some 0"
  shows "map rec_anime_id (combine_recommendations h rs rs k) = py_prefix k (map rec_anime_id rs)
    \<and> (\<forall>r \<in> set (combine_recommendations h rs rs k).
          recommendation_type r = ''hybrid'' \<and> hybrid_score r = Some 0)"
proof -
  let ?H = "map (hybrid_record h) (combine_scores rs rs)"
  have zero: "\<forall>r \<in> set ?H. hybrid_score r = Some 0 \<and> recommendation_type r = ''hybrid''"
    using hybrid_records_scores [of _ h rs rs] side_score_zero [OF assms(2)]
    by (simp add: fused_score_def)
  then have "\<forall>r \<in> set ?H. - get_or (hybrid_score r) 0 = 0"
    by (auto simp: get_or_def)
  then have "map (\<lambda>r. - get_or (hybrid_score r) 0) ?H = map (\<lambda>r. 0) ?H"
    by (intro map_cong) auto
  then have "sorted (map (\<lambda>r. - get_or (hybrid_score r) 0) ?H)"
    by (simp only: sorted_map) (simp add: sorted_wrt_iff_nth_less)
  then have same: "sorted_reverse (\<lambda>r. get_or (hybrid_score r) 0) ?H = ?H"
    unfolding sorted_reverse_def by (rule sort_key_id_if_sorted)
  have eq: "combine_recommendations h rs rs k = py_prefix k ?H"
    by (simp add: combine_recommendations_def same)
  have ids: "map rec_anime_id (combine_recommendations h rs rs k) =
      py_prefix k (map rec_anime_id rs)"
    unfolding eq map_py_prefix hybrid_records_ids keys_combine_same [OF assms(1)] ..
  have "set (py_prefix k ?H) \<subseteq> set ?H"
    using py_prefix_take [of k ?H] set_take_subset by metis
  then have "\<forall>r \<in> set (combine_recommendations h rs rs k).
          recommendation_type r = ''hybrid'' \<and> hybrid_score r = Some 0"
    unfolding eq using zero by blast
  then show ?thesis using ids by blast
qed


lemma get_popular_recommendations_eq:
  assumes "load_rating_data dp = Inr rating_data" and "load_anime_data dp = Inr anime_data"
  shows "get_popular_recommendations dp n =
           Inr (map popular_recommendation (py_prefix n
             (filter (\<lambda>a. a_anime_id a \<in> set (map r_anime_id rating_data)
                     \<and> 50 \<le> int (count_list (map r_anime_id rating_data) (a_anime_id a)))
                  anime_data)))"
  using get_popular_anime_eq [OF assms, of 50] by (simp add: get_popular_recommendations_def)

lemma popular_recommendation_fields:
  "rec_anime_id (popular_recommendation a) = a_anime_id a
   \<and> similarity_score (popular_recommendation a) = Some 0
   \<and> recommendation_type (popular_recommendation a) = ''popular''"
  by (simp add: popular_recommendation_def make_recommendation_def)

lemma distinct_py_prefix: "distinct xs \<Longrightarrow> distinct (py_prefix n xs)"
  by (simp add: py_prefix_def)

lemma py_prefix_twice: "0 \<le> k \<Longrightarrow> py_prefix k (py_prefix (k * 2) xs) = py_prefix k xs"
  by (simp add: py_prefix_def min_def nat_mult_distrib)

lemma users_ratings_by: "r_user_id ` set (ratings_by n a r) = int ` {0..<n}"
  unfolding ratings_by_def by (auto simp: image_image)

lemma two_items_cold_user: "500 \<notin> r_user_id ` set (ratings_by 100 1 8 @ ratings_by 100 2 8)"
proof -
  have "500 \<notin> int ` {0..<100}" by auto
  then show ?thesis by (simp add: image_Un users_ratings_by)
qed

lemma two_items_distinct: "distinct (map a_anime_id [item 1 5, item 2 9])"
  by (simp add: item_def)

lemma two_items_popular:
  "get_popular_recommendations two_items_provider 1 = Inr [popular_recommendation (item 1 5)]"
  "get_popular_recommendations two_items_provider 2 =
     Inr [popular_recommendation (item 1 5), popular_recommendation (item 2 9)]"
  using get_popular_recommendations_eq [OF two_items_loads]
  by (simp_all add: count_list_ratings_by set_ratings_by py_prefix_def item_def image_Un)

lemma ones_library_calls:
  "cosine_similarity ones_library matrix = Inr (\<lambda>i j. 1)"
  "item_similarity ones_library anime_data = Inr (\<lambda>i j. 1)"
  by (simp_all add: ones_library_def)

lemma two_items_engines:
  "cf_get_recommendations ones_library default_max_users default_max_anime two_items_provider
       500 (1 * 2) = Inr [popular_recommendation (item 1 5), popular_recommendation (item 2 9)]"
  "cb_get_recommendations ones_library two_items_provider 500 (1 * 2) =
       Inr [popular_recommendation (item 1 5), popular_recommendation (item 2 9)]"
  using cf_cold_start [OF two_items_loads ones_library_calls(1) two_items_cold_user]
    cb_cold_start [OF two_items_loads ones_library_calls(2) two_items_cold_user]
    two_items_popular(2)
  by simp_all

lemma three_raters_matrix:
  "create_rating_matrix default_max_users default_max_anime
     (rated 1 [(10, 3), (20, 4)] @ rated 2 [(10, 3), (20, 4)] @ rated 3 [(10, 4), (30, 3)]) =
   ([(1, 0), (2, 1), (3, 2)], [(10, 0), (20, 1), (30, 2)],
    [[3, 4, 0], [3, 4, 0], [4, 0, 3]])"
  by code_simp

lemma three_raters_loads:
  "load_rating_data three_raters_provider =
     Inr (rated 1 [(10, 3), (20, 4)] @ rated 2 [(10, 3), (20, 4)] @ rated 3 [(10, 4), (30, 3)])"
  "load_anime_data three_raters_provider = Inr [item 10 7, item 20 7, item 30 7]"
  by (simp_all add: three_raters_provider_def load_rating_data_def load_anime_data_def)

lemma three_raters_build:
  "compute_user_similarity three_raters_library default_max_users default_max_anime
     three_raters_provider = Inr three_raters_model"
  by (simp add: compute_user_similarity_def three_raters_loads three_raters_matrix
      three_raters_library_def dense_def three_raters_model_def numeral_3_eq_3)

lemma three_raters_neighbours:
  "similar_users (user_similarity_matrix three_raters_model ! 0) = [0, 2]"
  by code_simp

lemma three_raters_scores:
  "collaborative_scores three_raters_model 0 = Inr [(30, 36 / 25)]"
  by code_simp

lemma three_raters_recommendations:
  "cf_get_recommendations three_raters_library default_max_users default_max_anime
     three_raters_provider 1 5 = Inr [scored 30 (36 / 25) ''collaborative'']"
proof -
  have idx: "map_of (user_mapping three_raters_model) 1 = Some 0"
    by (simp add: three_raters_model_def)
  have collect: "collect_recommendations ''collaborative'' three_raters_provider
      (py_prefix 5 (sorted_reverse snd [(30, 36 / 25)])) =
        Inr [scored 30 (36 / 25) ''collaborative'']"
    by (simp add: py_prefix_def sorted_reverse_def get_anime_info_def three_raters_loads
        anime_info_of_def item_def scored_def)
  show ?thesis
    by (simp add: cf_get_recommendations_def three_raters_build idx three_raters_scores collect)
qed

lemma keys_add_score:
  "map fst (add_score d k v) =
     (if k \<in> set (map fst d) then map fst d else map fst d @ [k])"
  by (induction d k v rule: add_score.induct) auto

lemma distinct_add_score: "distinct (map fst d) \<Longrightarrow> distinct (map fst (add_score d k v))"
  by (simp add: keys_add_score)

lemma fold_err_invariant:
  assumes "fold_err f xs acc = Inr res"
    and "P acc"
    and "\<And>x a a'. P a \<Longrightarrow> f x a = Inr a' \<Longrightarrow> P a'"
  shows "P res"
  using assms(1,2)
proof (induction xs arbitrary: acc)
  case Nil
  then show ?case by simp
next
  case (Cons x xs)
  from Cons.prems(1) obtain acc' where step: "f x acc = Inr acc'"
    and rest: "fold_err f xs acc' = Inr res"
    by (auto split: sum.splits)
  from assms(3) [OF Cons.prems(2) step] have "P acc'" .
  from Cons.IH [OF rest this] show ?case .
qed

lemma score_item_distinct:
  assumes "distinct (map fst a)" and "score_item am user_ratings similarity x a = Inr a'"
  shows "distinct (map fst a')"
proof -
  obtain anime_idx rating where x: "x = (anime_idx, rating)" by (cases x) auto
  show ?thesis
    using assms unfolding x score_item_def
    by (auto simp: distinct_add_score split: if_splits sum.splits)
qed

lemma score_neighbour_distinct:
  assumes "distinct (map fst a)"
    and "score_neighbour m user_similarities user_ratings similar_user_idx a = Inr a'"
  shows "distinct (map fst a')"
  using assms(2) unfolding score_neighbour_def
  by (rule fold_err_invariant [where P = "\<lambda>d. distinct (map fst d)"])
    (use assms(1) score_item_distinct in blast)+

lemma collaborative_scores_distinct:
  assumes "collaborative_scores m user_idx = Inr anime_scores"
  shows "distinct (map fst anime_scores)"
  using assms unfolding collaborative_scores_def Let_def
  by (rule fold_err_invariant [where P = "\<lambda>d. distinct (map fst d)"])
    (use score_neighbour_distinct in auto)

lemma fold_invariant:
  assumes "P acc" and "\<And>x a. P a \<Longrightarrow> P (f x a)"
  shows "P (fold f xs acc)"
  using assms(1) by (induction xs arbitrary: acc) (auto intro: assms(2))

lemma similar_item_distinct:
  "distinct (map fst a) \<Longrightarrow> distinct (map fst (similar_item anime_data rated_ids x a))"
  by (cases x) (simp add: similar_item_def Let_def distinct_add_score)

lemma similar_scores_distinct:
  "distinct (map fst (similar_scores anime_data similarity_matrix liked rated_ids))"
  unfolding similar_scores_def
proof (rule fold_invariant [where P = "\<lambda>d. distinct (map fst d)"])
  show "distinct (map fst ([] :: (int \<times> real) list))" by simp
next
  fix x and a :: "(int \<times> real) list"
  assume a: "distinct (map fst a)"
  show "distinct (map fst
          (case list_index (map a_anime_id anime_data) x of
             None \<Rightarrow> a
           | Some anime_idx \<Rightarrow>
               fold (similar_item anime_data rated_ids)
                 (enumerate 0 (similarity_matrix ! anime_idx)) a))"
  proof (cases "list_index (map a_anime_id anime_data) x")
    case None
    then show ?thesis using a by simp
  next
    case (Some anime_idx)
    have "distinct (map fst (fold (similar_item anime_data rated_ids)
                 (enumerate 0 (similarity_matrix ! anime_idx)) a))"
      by (rule fold_invariant [where P = "\<lambda>d. distinct (map fst d)"])
        (use a similar_item_distinct in auto)
    then show ?thesis using Some by simp
  qed
qed


lemma make_recommendation_fields:
  "rec_anime_id (make_recommendation anime_id info score rtype) = anime_id
   \<and> recommendation_type (make_recommendation anime_id info score rtype) = rtype"
  by (simp add: make_recommendation_def)

lemma collect_recommendations_props:
  "collect_recommendations rtype dp xs = Inr recs \<Longrightarrow>
     length recs \<le> length xs
     \<and> set (map rec_anime_id recs) \<subseteq> set (map fst xs)
     \<and> (distinct (map fst xs) \<longrightarrow> distinct (map rec_anime_id recs))
     \<and> (\<forall>r \<in> set recs. recommendation_type r = rtype)"
proof (induction xs arbitrary: recs)
  case Nil
  then show ?case by simp
next
  case (Cons x xs)
  obtain anime_id score where x: "x = (anime_id, score)" by (cases x) auto
  from Cons.prems obtain anime_info rest where
    rest: "collect_recommendations rtype dp xs = Inr rest"
    and recs: "recs = (case anime_info of
                      None \<Rightarrow> rest
                    | Some info \<Rightarrow> make_recommendation anime_id info (Some score) rtype # rest)"
    unfolding x by (auto split: sum.splits)
  note IH = Cons.IH [OF rest]
  show ?case
  proof (cases anime_info)
    case None
    then show ?thesis using IH recs by (auto simp: x)
  next
    case (Some info)
    then have recs': "recs = make_recommendation anime_id info (Some score) rtype # rest"
      using recs by simp
    show ?thesis
      unfolding recs' x using IH by (auto simp: make_recommendation_fields)
  qed
qed

lemma ranked_props:
  assumes "0 \<le> k" and "distinct (map fst scores)"
  shows "length (py_prefix k (sorted_reverse snd scores)) \<le> nat k
    \<and> distinct (map fst (py_prefix k (sorted_reverse snd scores)))"
proof -
  have "distinct (map fst (sorted_reverse snd scores))"
    using assms(2) by (simp add: distinct_map_sorted_reverse)
  then have "distinct (py_prefix k (map fst (sorted_reverse snd scores)))"
    by (rule distinct_py_prefix)
  then show ?thesis using assms(1) by (simp add: map_py_prefix length_py_prefix)
qed

lemma ranked_recommendations_props:
  assumes "collect_recommendations rtype dp (py_prefix k (sorted_reverse snd scores)) = Inr recs"
    and "0 \<le> k" and "distinct (map fst scores)"
  shows "length recs \<le> nat k \<and> distinct (map rec_anime_id recs)"
  using collect_recommendations_props [OF assms(1)] ranked_props [OF assms(2,3)]
  by auto

lemma get_popular_anime_Inr:
  assumes "get_popular_anime dp m = Inr popular"
  shows "\<exists>anime_data. load_anime_data dp = Inr anime_data
           \<and> (distinct (map a_anime_id anime_data) \<longrightarrow> distinct (map a_anime_id popular))"
  using assms
  by (auto simp: get_popular_anime_def Let_def distinct_map_filter split: sum.splits)

lemma popular_list_props:
  assumes "get_popular_anime dp m = Inr popular" and "0 \<le> k"
    and "recs = map (\<lambda>a. make_recommendation (a_anime_id a) a score ''popular'')
                  (py_prefix k popular)"
  shows "length recs \<le> nat k
    \<and> ((\<forall>r \<in> set recs. recommendation_type r \<noteq> ''popular'') \<longrightarrow>
         distinct (map rec_anime_id recs))
    \<and> ((\<forall>anime_data. load_anime_data dp = Inr anime_data \<longrightarrow>
           distinct (map a_anime_id anime_data)) \<longrightarrow> distinct (map rec_anime_id recs))"
proof -
  have len: "length recs \<le> nat k"
    using assms(2,3) by (simp add: length_py_prefix)
  have types: "\<forall>r \<in> set recs. recommendation_type r = ''popular''"
    using assms(3) by (auto simp: make_recommendation_fields)
  have none: "(\<forall>r \<in> set recs. recommendation_type r \<noteq> ''popular'') \<longrightarrow> recs = []"
    using types by (cases recs) auto
  have ids: "map rec_anime_id recs = py_prefix k (map a_anime_id popular)"
    unfolding assms(3) map_py_prefix [symmetric] by (simp add: make_recommendation_fields)
  have "(\<forall>anime_data. load_anime_data dp = Inr anime_data \<longrightarrow>
           distinct (map a_anime_id anime_data)) \<longrightarrow> distinct (map rec_anime_id recs)"
    unfolding ids using get_popular_anime_Inr [OF assms(1)] distinct_py_prefix by blast
  then show ?thesis using len none by auto
qed


lemma engine_popular_props:
  assumes "get_popular_recommendations dp k = Inr recs" and "0 \<le> k"
  shows "length recs \<le> nat k
    \<and> ((\<forall>r \<in> set recs. recommendation_type r \<noteq> ''popular'') \<longrightarrow>
         distinct (map rec_anime_id recs))
    \<and> ((\<forall>anime_data. load_anime_data dp = Inr anime_data \<longrightarrow>
           distinct (map a_anime_id anime_data)) \<longrightarrow> distinct (map rec_anime_id recs))"
proof -
  from assms(1) obtain popular where p: "get_popular_anime dp 50 = Inr popular"
    and recs: "recs = map popular_recommendation (py_prefix k popular)"
    by (auto simp: get_popular_recommendations_def split: sum.splits)
  have "recs = map (\<lambda>a. make_recommendation (a_anime_id a) a (Some 0) ''popular'')
                  (py_prefix k popular)"
    unfolding recs by (simp add: popular_recommendation_def)
  from popular_list_props [OF p assms(2) this] show ?thesis .
qed

lemma fallback_props:
  assumes "get_fallback_recommendations svc k = Inr recs" and "0 \<le> k"
  shows "length recs \<le> nat k
    \<and> ((\<forall>r \<in> set recs. recommendation_type r \<noteq> ''popular'') \<longrightarrow>
         distinct (map rec_anime_id recs))
    \<and> ((\<forall>anime_data. load_anime_data (provider svc) = Inr anime_data \<longrightarrow>
           distinct (map a_anime_id anime_data)) \<longrightarrow> distinct (map rec_anime_id recs))"
proof -
  from assms(1) obtain popular where p: "get_popular_anime (provider svc) 100 = Inr popular"
    and recs: "recs = map (\<lambda>a. make_recommendation (a_anime_id a) a None ''popular'')
                  (py_prefix k popular)"
    by (auto simp: get_fallback_recommendations_def service_get_popular_anime_def
        split: sum.splits)
  from popular_list_props [OF p assms(2) recs] show ?thesis .
qed

lemma cf_props:
  assumes "cf_get_recommendations lib max_users max_anime dp user_id k = Inr recs"
    and "0 \<le> k"
  shows "length recs \<le> nat k
    \<and> ((\<forall>r \<in> set recs. recommendation_type r \<noteq> ''popular'') \<longrightarrow>
         distinct (map rec_anime_id recs))
    \<and> ((\<forall>anime_data. load_anime_data dp = Inr anime_data \<longrightarrow>
           distinct (map a_anime_id anime_data)) \<longrightarrow> distinct (map rec_anime_id recs))"
proof -
  from assms(1) obtain m where m: "compute_user_similarity lib max_users max_anime dp = Inr m"
    by (auto simp: cf_get_recommendations_def split: sum.splits)
  show ?thesis
  proof (cases "map_of (user_mapping m) user_id")
    case None
    then have "get_popular_recommendations dp k = Inr recs"
      using assms(1) by (simp add: cf_get_recommendations_def m)
    from engine_popular_props [OF this assms(2)] show ?thesis .
  next
    case (Some user_idx)
    then obtain anime_scores where scores: "collaborative_scores m user_idx = Inr anime_scores"
      and collect: "collect_recommendations ''collaborative'' dp
          (py_prefix k (sorted_reverse snd anime_scores)) = Inr recs"
      using assms(1) by (auto simp: cf_get_recommendations_def m split: sum.splits)
    from ranked_recommendations_props [OF collect assms(2) collaborative_scores_distinct [OF scores]]
    show ?thesis by simp
  qed
qed

lemma cb_props:
  assumes "cb_get_recommendations lib dp user_id k = Inr recs"
    and "0 \<le> k"
  shows "length recs \<le> nat k
    \<and> ((\<forall>r \<in> set recs. recommendation_type r \<noteq> ''popular'') \<longrightarrow>
         distinct (map rec_anime_id recs))
    \<and> ((\<forall>anime_data. load_anime_data dp = Inr anime_data \<longrightarrow>
           distinct (map a_anime_id anime_data)) \<longrightarrow> distinct (map rec_anime_id recs))"
proof -
  from assms(1) obtain anime_data similarity_matrix user_ratings where
    build: "build_similarity_matrix lib dp = Inr (anime_data, similarity_matrix)"
    and ratings: "get_user_ratings dp user_id = Inr user_ratings"
    by (auto simp: cb_get_recommendations_def split: sum.splits)
  let ?high = "map r_anime_id (filter (\<lambda>r. r_rating r \<ge> 7) user_ratings)"
  show ?thesis
  proof (cases "user_ratings = [] \<or> ?high = []")
    case True
    then have "get_popular_recommendations dp k = Inr recs"
      using assms(1) unfolding cb_get_recommendations_def build ratings Let_def
      by (auto split: if_splits)
    from engine_popular_props [OF this assms(2)] show ?thesis .
  next
    case False
    then have "get_similar_anime dp anime_data similarity_matrix ?high user_ratings k = Inr recs"
      using assms(1) unfolding cb_get_recommendations_def build ratings Let_def
      by (auto split: if_splits)
    then have collect: "collect_recommendations ''content_based'' dp
        (py_prefix k (sorted_reverse snd
           (similar_scores anime_data similarity_matrix ?high (map r_anime_id user_ratings))))
        = Inr recs"
      by (simp add: get_similar_anime_def Let_def)
    from ranked_recommendations_props [OF collect assms(2) similar_scores_distinct]
    show ?thesis by simp
  qed
qed

lemma hybrid_props:
  assumes "hybrid_get_recommendations lib dp h user_id k = Inr recs" and "0 \<le> k"
  shows "length recs \<le> nat k"
  using assms
  by (auto simp: hybrid_get_recommendations_def combine_recommendations_def length_py_prefix
      split: sum.splits)

lemma score_of_add_score:
  "score_of (add_score d k v) a = (if a = k then score_of d k + v else score_of d a)"
  unfolding score_of_def by (induction d k v rule: add_score.induct) auto

lemma fold_err_total:
  assumes "\<And>x a. x \<in> set xs \<Longrightarrow> f x a = Inr (g x a)"
  shows "fold_err f xs acc = Inr (fold g xs acc)"
  using assms by (induction xs arbitrary: acc) auto

lemma list_index_nth:
  "distinct xs \<Longrightarrow> j < length xs \<Longrightarrow> list_index xs (xs ! j) = Some j"
proof (induction xs arbitrary: j)
  case Nil
  then show ?case by simp
next
  case (Cons x xs)
  show ?case
  proof (cases j)
    case 0
    then show ?thesis by simp
  next
    case (Suc i)
    then have "xs ! i \<in> set xs" using Cons.prems by simp
    then have "x \<noteq> xs ! i" using Cons.prems by auto
    then show ?thesis using Cons Suc by simp
  qed
qed

lemma list_index_upt: "j < n \<Longrightarrow> list_index [0..<n] j = Some j"
  using list_index_nth [of "[0..<n]" j] by simp

lemma mapping_key_of_zip:
  assumes "j < length ids"
  shows "mapping_key_of (zip ids [0..<length ids]) j = Inr (ids ! j)"
  using assms by (simp add: mapping_key_of_def list_index_upt)

lemma score_item_zip:
  assumes "fst x < length ids"
  shows "score_item (zip ids [0..<length ids]) ur sim x d = Inr (item_step ids ur sim x d)"
  using assms by (cases x) (simp add: score_item_def item_step_def mapping_key_of_zip)

lemma set_enumerate_bound: "x \<in> set (enumerate 0 row) \<Longrightarrow> fst x < length row"
  by (auto simp: in_set_enumerate_eq)

lemma row_fold:
  assumes "length row = length ids"
  shows "fold_err (score_item (zip ids [0..<length ids]) ur sim) (enumerate 0 row) d =
           Inr (fold (item_step ids ur sim) (enumerate 0 row) d)"
  by (rule fold_err_total) (use assms set_enumerate_bound score_item_zip in fastforce)


lemma row_value:
  assumes "distinct ids" and "length xs \<le> length ids" and "j < length ids"
  shows "score_of (fold (item_step ids ur sim) (enumerate 0 xs) d) (ids ! j) =
           score_of d (ids ! j)
           + (if j < length xs \<and> xs ! j > 0 \<and> ur ! j = 0 then sim * xs ! j else 0)"
  using assms(2)
proof (induction xs rule: rev_induct)
  case Nil
  then show ?case by simp
next
  case (snoc x xs)
  let ?d = "fold (item_step ids ur sim) (enumerate 0 xs) d"
  have len: "length xs < length ids" using snoc.prems by simp
  have IH: "score_of ?d (ids ! j) = score_of d (ids ! j)
           + (if j < length xs \<and> xs ! j > 0 \<and> ur ! j = 0 then sim * xs ! j else 0)"
    using snoc.IH len by simp
  have step: "fold (item_step ids ur sim) (enumerate 0 (xs @ [x])) d =
      item_step ids ur sim (length xs, x) ?d"
    by (simp add: enumerate_append_eq)
  show ?case
  proof (cases "j = length xs")
    case True
    then show ?thesis
      unfolding step using IH
      by (simp add: item_step_def score_of_add_score)
  next
    case False
    then have "ids ! j \<noteq> ids ! length xs"
      using assms(1,3) len by (simp add: nth_eq_iff_index_eq)
    then show ?thesis
      unfolding step using IH False
      by (auto simp: item_step_def score_of_add_score nth_append)
  qed
qed


lemma keyset_add_score: "fst ` set (add_score d k v) = insert k (fst ` set d)"
  by (induction d k v rule: add_score.induct) auto

lemma keys_item_step:
  "a \<in> set (map fst (item_step ids ur sim (l, x) d)) \<longleftrightarrow>
     a \<in> set (map fst d) \<or> (x > 0 \<and> ur ! l = 0 \<and> a = ids ! l)"
  by (auto simp: item_step_def keyset_add_score)

lemma exists_snoc:
  "(\<exists>j < length (xs @ [x]). P j ((xs @ [x]) ! j)) \<longleftrightarrow>
     (\<exists>j < length xs. P j (xs ! j)) \<or> P (length xs) x"
proof
  assume "\<exists>j < length (xs @ [x]). P j ((xs @ [x]) ! j)"
  then obtain j where j: "j < Suc (length xs)" and p: "P j ((xs @ [x]) ! j)" by auto
  show "(\<exists>j < length xs. P j (xs ! j)) \<or> P (length xs) x"
  proof (cases "j < length xs")
    case True
    then show ?thesis using p by (auto simp: nth_append)
  next
    case False
    then have "j = length xs" using j by simp
    then show ?thesis using p by simp
  qed
next
  assume "(\<exists>j < length xs. P j (xs ! j)) \<or> P (length xs) x"
  then show "\<exists>j < length (xs @ [x]). P j ((xs @ [x]) ! j)"
  proof
    assume "\<exists>j < length xs. P j (xs ! j)"
    then obtain j where "j < length xs" and "P j (xs ! j)" by auto
    then have "j < length (xs @ [x]) \<and> P j ((xs @ [x]) ! j)" by (simp add: nth_append)
    then show ?thesis by blast
  next
    assume "P (length xs) x"
    then have "length xs < length (xs @ [x]) \<and> P (length xs) ((xs @ [x]) ! length xs)" by simp
    then show ?thesis by blast
  qed
qed

lemma row_keys:
  "a \<in> set (map fst (fold (item_step ids ur sim) (enumerate 0 xs) d)) \<longleftrightarrow>
     a \<in> set (map fst d) \<or> (\<exists>j < length xs. xs ! j > 0 \<and> ur ! j = 0 \<and> a = ids ! j)"
proof (induction xs rule: rev_induct)
  case Nil
  then show ?case by simp
next
  case (snoc x xs)
  let ?d = "fold (item_step ids ur sim) (enumerate 0 xs) d"
  have step: "fold (item_step ids ur sim) (enumerate 0 (xs @ [x])) d =
      item_step ids ur sim (length xs, x) ?d"
    by (simp add: enumerate_append_eq)
  have "a \<in> set (map fst (item_step ids ur sim (length xs, x) ?d)) \<longleftrightarrow>
      (a \<in> set (map fst d) \<or> (\<exists>j < length xs. xs ! j > 0 \<and> ur ! j = 0 \<and> a = ids ! j))
      \<or> (x > 0 \<and> ur ! length xs = 0 \<and> a = ids ! length xs)"
    unfolding keys_item_step snoc.IH ..
  also have "\<dots> \<longleftrightarrow> a \<in> set (map fst d)
      \<or> (\<exists>j < length (xs @ [x]). (xs @ [x]) ! j > 0 \<and> ur ! j = 0 \<and> a = ids ! j)"
    unfolding exists_snoc [of xs x "\<lambda>j r. r > 0 \<and> ur ! j = 0 \<and> a = ids ! j"] by blast
  finally show ?case unfolding step .
qed

lemma score_neighbour_zip:
  assumes "anime_mapping m = zip ids [0..<length ids]"
    and "length (rating_matrix m ! v) = length ids"
  shows "score_neighbour m sims ur v d = Inr (neighbour_step ids (rating_matrix m) sims ur v d)"
  unfolding score_neighbour_def neighbour_step_def assms(1)
  by (rule row_fold [OF assms(2)])

lemma neighbours_value:
  assumes "distinct ids" and "\<forall>v \<in> set vs. length (R ! v) = length ids" and "j < length ids"
  shows "score_of (fold (neighbour_step ids R sims ur) vs d) (ids ! j) =
           score_of d (ids ! j)
           + (\<Sum>v \<leftarrow> vs. if R ! v ! j > 0 \<and> ur ! j = 0 then sims ! v * R ! v ! j else 0)"
  using assms(2)
proof (induction vs arbitrary: d)
  case Nil
  then show ?case by simp
next
  case (Cons v vs)
  have len: "length (R ! v) = length ids" using Cons.prems by simp
  have row: "score_of (neighbour_step ids R sims ur v d) (ids ! j) =
      score_of d (ids ! j)
      + (if R ! v ! j > 0 \<and> ur ! j = 0 then sims ! v * R ! v ! j else 0)"
    unfolding neighbour_step_def
    using row_value [OF assms(1) _ assms(3), of "R ! v" ur "sims ! v" d] len assms(3)
    by simp
  have "score_of (fold (neighbour_step ids R sims ur) vs (neighbour_step ids R sims ur v d))
          (ids ! j) =
        score_of (neighbour_step ids R sims ur v d) (ids ! j)
        + (\<Sum>v \<leftarrow> vs. if R ! v ! j > 0 \<and> ur ! j = 0 then sims ! v * R ! v ! j else 0)"
    using Cons.IH Cons.prems by simp
  then show ?case unfolding row by simp
qed

lemma neighbours_keys:
  "a \<in> set (map fst (fold (neighbour_step ids R sims ur) vs d)) \<longleftrightarrow>
     a \<in> set (map fst d)
     \<or> (\<exists>v \<in> set vs. \<exists>j < length (R ! v). R ! v ! j > 0 \<and> ur ! j = 0 \<and> a = ids ! j)"
proof (induction vs arbitrary: d)
  case Nil
  then show ?case by simp
next
  case (Cons v vs)
  have "a \<in> set (map fst (fold (neighbour_step ids R sims ur) vs
          (neighbour_step ids R sims ur v d))) \<longleftrightarrow>
      a \<in> set (map fst (neighbour_step ids R sims ur v d))
      \<or> (\<exists>v \<in> set vs. \<exists>j < length (R ! v). R ! v ! j > 0 \<and> ur ! j = 0 \<and> a = ids ! j)"
    by (rule Cons.IH)
  also have "a \<in> set (map fst (neighbour_step ids R sims ur v d)) \<longleftrightarrow>
      a \<in> set (map fst d) \<or> (\<exists>j < length (R ! v). R ! v ! j > 0 \<and> ur ! j = 0 \<and> a = ids ! j)"
    unfolding neighbour_step_def by (rule row_keys)
  finally show ?case by auto
qed


lemma distinct_keys_group_sizes: "distinct (map fst (group_sizes ks))"
  by (simp add: group_sizes_def comp_def)

lemma distinct_keys_nlargest:
  assumes "distinct (map fst counts)"
  shows "distinct (map fst (nlargest n counts))"
proof -
  have "distinct (map fst (sort_key (\<lambda>(k, c). - int c) counts))"
    using assms by (simp add: distinct_map)
  then have "distinct (take n (map fst (sort_key (\<lambda>(k, c). - int c) counts)))"
    by (rule distinct_take)
  then show ?thesis by (simp add: nlargest_def take_map)
qed

lemma build_shape:
  assumes "compute_user_similarity lib max_users max_anime dp = Inr m"
  shows "\<exists>ids uids entries.
           anime_mapping m = zip ids [0..<length ids] \<and> distinct ids
           \<and> user_mapping m = zip uids [0..<length uids]
           \<and> length (rating_matrix m) = length uids
           \<and> (\<forall>row \<in> set (rating_matrix m). length row = length ids)
           \<and> user_similarity_matrix m = dense (length uids) entries"
proof -
  from assms obtain rating_data um am matrix entries where
    c: "create_rating_matrix max_users max_anime rating_data = (um, am, matrix)"
    and m: "m = \<lparr> user_mapping = um, anime_mapping = am, rating_matrix = matrix,
                  user_similarity_matrix = dense (length matrix) entries \<rparr>"
    by (auto simp: compute_user_similarity_def split: sum.splits prod.splits)
  let ?ids = "map fst (nlargest max_anime (group_sizes (map r_anime_id rating_data)))"
  let ?uids = "map fst (nlargest max_users (group_sizes (map r_user_id rating_data)))"
  have dist: "distinct ?ids"
    by (rule distinct_keys_nlargest) (rule distinct_keys_group_sizes)
  have um: "um = zip ?uids [0..<length ?uids]" and am: "am = zip ?ids [0..<length ?ids]"
    and len: "length matrix = length ?uids"
    and rows: "\<forall>row \<in> set matrix. length row = length ?ids"
    using c unfolding create_rating_matrix_def Let_def by auto
  show ?thesis
    unfolding m using dist um am len rows
    by (intro exI [of _ ?ids] exI [of _ ?uids] exI [of _ entries]) simp
qed

lemma set_argsort: "set (argsort a) = {0..<length a}"
  by (simp add: argsort_def)

lemma similar_users_bound: "v \<in> set (similar_users a) \<Longrightarrow> v < length a"
proof -
  assume "v \<in> set (similar_users a)"
  then have "v \<in> set (drop 1 (rev (argsort a)))"
    unfolding similar_users_def by (rule in_set_takeD)
  then have "v \<in> set (rev (argsort a))" by (rule in_set_dropD)
  then show ?thesis by (simp add: set_argsort)
qed

lemma length_dense_row: "i < n \<Longrightarrow> length (dense n entries ! i) = n"
  by (simp add: dense_def)

section \<open>The service rejects an unknown strategy\<close>

text \<open>
  C2. For every user id and every number of recommendations, \<open>get_recommendations\<close> of the
  service with a strategy name other than \<open>collaborative\<close>, \<open>content\<close> and \<open>hybrid\<close> raises
  ValueError: the result is that error and no list of recommendations, whatever the
  library, the tables and the cache are.
\<close>

theorem invalid_strategy_raises:
  assumes "strategy \<notin> {''collaborative'', ''content'', ''hybrid''}"
  shows "get_recommendations lib svc user_id strategy k = Inl (ValueError strategy)
         \<and> (\<forall>recs. get_recommendations lib svc user_id strategy k \<noteq> Inr recs)"
  using assms by (simp add: get_recommendations_def strategies_def)

theorem invalid_strategy_raises_witness:
  "\<forall>lib svc. ''bogus'' \<notin> {''collaborative'', ''content'', ''hybrid''}
     \<and> get_recommendations lib svc 1 ''bogus'' 5 = Inl (ValueError ''bogus'')"
  using invalid_strategy_raises [of "''bogus''"] by simp

section \<open>The popularity fallback\<close>




section \<open>An engine error is replaced by the fallback\<close>




section \<open>Submitted ratings do not reach the engines\<close>

text \<open>
  C10. The engines read rating history from the data provider only; \<open>add_rating\<close> writes
  \<open>user_ratings_cache\<close> only. So after any sequence of \<open>add_rating\<close> calls the service's
  \<open>get_recommendations\<close> returns (or raises) what it did before, for every user, strategy
  and \<open>k\<close>; and a rating submitted with \<open>add_rating\<close> is in the list the service's
  \<open>get_user_ratings\<close> returns for that user.
\<close>

theorem add_rating_does_not_change_recommendations:
  "get_recommendations lib (add_ratings svc calls) user_id strategy k =
     get_recommendations lib svc user_id strategy k
   \<and> (\<exists>rs. service_get_user_ratings (fst (add_rating svc u a r)) u
             = (fst (add_rating svc u a r), Inr rs)
           \<and> \<lparr> r_user_id = u, r_anime_id = a, r_rating = r \<rparr> \<in> set rs)"
proof -
  have recs: "get_recommendations lib (add_ratings svc calls) user_id strategy k =
     get_recommendations lib svc user_id strategy k"
    using add_ratings_frame [of svc calls] by (intro get_recommendations_frame) simp_all
  obtain rs where cache: "user_ratings_cache (fst (add_rating svc u a r)) u = Some rs"
    and new: "\<lparr> r_user_id = u, r_anime_id = a, r_rating = r \<rparr> \<in> set rs"
    using add_rating_cached by blast
  have "service_get_user_ratings (fst (add_rating svc u a r)) u
             = (fst (add_rating svc u a r), Inr rs)"
    unfolding service_get_user_ratings_def cache by simp
  then show ?thesis using recs new by blast
qed

section \<open>Adaptive weights\<close>

text \<open>
  C7. Let the provider return the user's rating history. When it is empty,
  \<open>get_personalized_recommendations\<close> leaves the weights as they are and returns the
  default fusion. When it is not empty, the weights are set from the standard deviation of
  the ratings before the fusion runs: below \<open>1.0\<close> they become \<open>0.3 / 0.7\<close>, above \<open>2.0\<close>
  they become \<open>0.8 / 0.2\<close>, and for every other value (between \<open>1.0\<close> and \<open>2.0\<close>, or NaN
  for a single rating) they become \<open>0.6 / 0.4\<close>; the fusion then runs with these weights.
\<close>

theorem adaptive_weights_follow_std:
  assumes "get_user_ratings dp user_id = Inr user_ratings"
  shows "(user_ratings = [] \<longrightarrow>
            get_personalized_recommendations lib dp h user_id k =
              (h, hybrid_get_recommendations lib dp h user_id k))
    \<and> (user_ratings \<noteq> [] \<longrightarrow>
         (\<forall>s. std (map r_rating user_ratings) = Some s \<and> s < 1 \<longrightarrow>
            fst (get_personalized_recommendations lib dp h user_id k) =
              \<lparr> collaborative_weight = 0.3, content_weight = 0.7 \<rparr>)
       \<and> (\<forall>s. std (map r_rating user_ratings) = Some s \<and> 2 < s \<longrightarrow>
            fst (get_personalized_recommendations lib dp h user_id k) =
              \<lparr> collaborative_weight = 0.8, content_weight = 0.2 \<rparr>)
       \<and> (std (map r_rating user_ratings) = None
            \<or> (\<exists>s. std (map r_rating user_ratings) = Some s \<and> 1 \<le> s \<and> s \<le> 2) \<longrightarrow>
            fst (get_personalized_recommendations lib dp h user_id k) =
              \<lparr> collaborative_weight = 0.6, content_weight = 0.4 \<rparr>)
       \<and> snd (get_personalized_recommendations lib dp h user_id k) =
            hybrid_get_recommendations lib dp
              (fst (get_personalized_recommendations lib dp h user_id k)) user_id k)"
proof (cases "user_ratings = []")
  case True
  then show ?thesis using assms by (simp add: get_personalized_recommendations_def)
next
  case False
  then have p: "get_personalized_recommendations lib dp h user_id k =
      (adapted_weights (std (map r_rating user_ratings)),
       hybrid_get_recommendations lib dp (adapted_weights (std (map r_rating user_ratings)))
         user_id k)"
    using assms by (simp add: get_personalized_recommendations_def Let_def)
  show ?thesis
    unfolding p using False adapted_weights_cases [of "std (map r_rating user_ratings)"]
    by simp
qed

theorem adaptive_weights_follow_std_witness:
  "fst (get_personalized_recommendations ones_library three_users_provider
          new_hybrid_recommender 1 5) = \<lparr> collaborative_weight = 0.3, content_weight = 0.7 \<rparr>
   \<and> fst (get_personalized_recommendations ones_library three_users_provider
          new_hybrid_recommender 2 5) = \<lparr> collaborative_weight = 0.8, content_weight = 0.2 \<rparr>
   \<and> fst (get_personalized_recommendations ones_library three_users_provider
          new_hybrid_recommender 3 5) = \<lparr> collaborative_weight = 0.6, content_weight = 0.4 \<rparr>"
proof -
  have nonempty: "rated 1 [(1, 9), (2, 9), (3, 9), (4, 9)] \<noteq> []"
    "rated 2 [(1, 1), (2, 10), (3, 2), (4, 9)] \<noteq> []" "rated 3 [(1, 5), (2, 6), (3, 7)] \<noteq> []"
    by (simp_all add: rated_def)
  have one: "fst (get_personalized_recommendations ones_library three_users_provider
          new_hybrid_recommender 1 5) = \<lparr> collaborative_weight = 0.3, content_weight = 0.7 \<rparr>"
    using adaptive_weights_follow_std [OF three_users_ratings(1)] nonempty(1) three_users_std(1)
    by simp
  have two: "fst (get_personalized_recommendations ones_library three_users_provider
          new_hybrid_recommender 2 5) = \<lparr> collaborative_weight = 0.8, content_weight = 0.2 \<rparr>"
    using adaptive_weights_follow_std [OF three_users_ratings(2)] nonempty(2) three_users_std(2)
    by blast
  have three: "fst (get_personalized_recommendations ones_library three_users_provider
          new_hybrid_recommender 3 5) = \<lparr> collaborative_weight = 0.6, content_weight = 0.4 \<rparr>"
    using adaptive_weights_follow_std [OF three_users_ratings(3)] nonempty(3) three_users_std(3)
    by simp
  show ?thesis using one two three by blast
qed

section \<open>The default fusion of the hybrid combiner\<close>

text \<open>
  C6. \<open>HybridRecommender.get_recommendations\<close> asks each engine for \<open>2k\<close> candidates and
  returns \<open>[:k]\<close> of a fused list. The fused list holds every item id of the two candidate
  lists exactly once; each of its records has type \<open>hybrid\<close> and the hybrid score
  \<open>w_collab * collab_score + w_content * content_score\<close>, where a side that does not list
  the item contributes \<open>0\<close>; it is sorted by that score, descending. For \<open>k \<ge> 0\<close> the result
  has at most \<open>k\<close> records. The weights of a new combiner are \<open>0.6\<close> and \<open>0.4\<close>, and with them
  the scores \<open>0.8\<close> and \<open>0.5\<close> fuse to \<open>0.68\<close>.
\<close>

theorem hybrid_fusion:
  "(cf_get_recommendations lib default_max_users default_max_anime dp user_id (k * 2) = Inr cr
      \<and> cb_get_recommendations lib dp user_id (k * 2) = Inr tr \<longrightarrow>
      hybrid_get_recommendations lib dp h user_id k = Inr (combine_recommendations h cr tr k))
   \<and> (\<exists>fused. combine_recommendations h cr tr k = py_prefix k fused
        \<and> set (map rec_anime_id fused) = rec_anime_id ` set cr \<union> rec_anime_id ` set tr
        \<and> distinct (map rec_anime_id fused)
        \<and> sorted_wrt (\<lambda>a b. fused_score h cr tr (rec_anime_id b)
                             \<le> fused_score h cr tr (rec_anime_id a)) fused
        \<and> (\<forall>r \<in> set fused.
              hybrid_score r = Some (fused_score h cr tr (rec_anime_id r))
              \<and> recommendation_type r = ''hybrid''))
   \<and> (0 \<le> k \<longrightarrow> length (combine_recommendations h cr tr k) \<le> nat k)
   \<and> collaborative_weight new_hybrid_recommender = 0.6
   \<and> content_weight new_hybrid_recommender = 0.4
   \<and> (side_score cr a = 0.8 \<and> side_score tr a = 0.5 \<longrightarrow>
        fused_score new_hybrid_recommender cr tr a = 0.68)"
proof -
  have run: "cf_get_recommendations lib default_max_users default_max_anime dp user_id (k * 2)
        = Inr cr
      \<and> cb_get_recommendations lib dp user_id (k * 2) = Inr tr \<longrightarrow>
      hybrid_get_recommendations lib dp h user_id k = Inr (combine_recommendations h cr tr k)"
    by (simp add: hybrid_get_recommendations_def)
  have len: "0 \<le> k \<longrightarrow> length (combine_recommendations h cr tr k) \<le> nat k"
    by (simp add: combine_recommendations_def length_py_prefix)
  have example: "side_score cr a = 0.8 \<and> side_score tr a = 0.5 \<longrightarrow>
        fused_score new_hybrid_recommender cr tr a = 0.68"
    by (simp add: fused_score_def new_hybrid_recommender_def)
  have weights: "collaborative_weight new_hybrid_recommender = 0.6
      \<and> content_weight new_hybrid_recommender = 0.4"
    by (simp add: new_hybrid_recommender_def)
  show ?thesis using run fused_list [of h cr tr k] len weights example by blast
qed

theorem hybrid_fusion_witness:
  "hybrid_get_recommendations ones_library two_items_provider new_hybrid_recommender 500 1 =
     Inr (combine_recommendations new_hybrid_recommender
            [popular_recommendation (item 1 5), popular_recommendation (item 2 9)]
            [popular_recommendation (item 1 5), popular_recommendation (item 2 9)] 1)
   \<and> fused_score new_hybrid_recommender [scored 1 0.8 ''collaborative'']
        [scored 1 0.5 ''content_based''] 1 = 0.68
   \<and> length (combine_recommendations new_hybrid_recommender [scored 1 0.8 ''collaborative'']
        [scored 1 0.5 ''content_based'', scored 2 0.9 ''content_based''] 1) \<le> 1"
proof -
  have run: "hybrid_get_recommendations ones_library two_items_provider new_hybrid_recommender
      500 1 = Inr (combine_recommendations new_hybrid_recommender
            [popular_recommendation (item 1 5), popular_recommendation (item 2 9)]
            [popular_recommendation (item 1 5), popular_recommendation (item 2 9)] 1)"
    using hybrid_fusion [of ones_library two_items_provider 500 1
        "[popular_recommendation (item 1 5), popular_recommendation (item 2 9)]"
        "[popular_recommendation (item 1 5), popular_recommendation (item 2 9)]"
        new_hybrid_recommender] two_items_engines
    by blast
  have sides: "side_score [scored 1 0.8 ''collaborative''] 1 = 0.8"
      "side_score [scored 1 0.5 ''content_based''] 1 = 0.5"
    by (simp_all add: side_score_def scored_def make_recommendation_def get_or_def)
  have fuse: "fused_score new_hybrid_recommender [scored 1 0.8 ''collaborative'']
        [scored 1 0.5 ''content_based''] 1 = 0.68"
    using hybrid_fusion [of _ _ _ _ "[scored 1 0.8 ''collaborative'']"
        "[scored 1 0.5 ''content_based'']" _ 1] sides
    by blast
  have len: "length (combine_recommendations new_hybrid_recommender
        [scored 1 0.8 ''collaborative'']
        [scored 1 0.5 ''content_based'', scored 2 0.9 ''content_based''] 1) \<le> 1"
    using hybrid_fusion [of _ _ _ 1 "[scored 1 0.8 ''collaborative'']"
        "[scored 1 0.5 ''content_based'', scored 2 0.9 ''content_based'']"
        new_hybrid_recommender]
    by simp
  show ?thesis using run fuse len by blast
qed

section \<open>Cold start\<close>

text \<open>
  C9. Let both tables load with unique item ids, let the two similarity matrices build, and
  let the user have no row in the rating table. Then for every \<open>k \<ge> 0\<close> the collaborative
  and the content engine return exactly the popularity fallback list for \<open>k\<close>, and the
  hybrid combiner returns the same items in the same order (its records carry the type
  \<open>hybrid\<close> and the hybrid score \<open>0\<close>).
\<close>

theorem cold_start_returns_popularity_fallback:
  assumes "load_rating_data dp = Inr rating_data"
    and "load_anime_data dp = Inr anime_data"
    and "distinct (map a_anime_id anime_data)"
    and "user_id \<notin> r_user_id ` set rating_data"
    and "0 \<le> k"
    and "cosine_similarity lib
           (snd (snd (create_rating_matrix default_max_users default_max_anime rating_data)))
           = Inr user_entries"
    and "item_similarity lib anime_data = Inr item_entries"
  shows "\<exists>popular. get_popular_recommendations dp k = Inr popular
      \<and> cf_get_recommendations lib default_max_users default_max_anime dp user_id k = Inr popular
      \<and> cb_get_recommendations lib dp user_id k = Inr popular
      \<and> (\<exists>hybrid_recs. hybrid_get_recommendations lib dp h user_id k = Inr hybrid_recs
            \<and> map rec_anime_id hybrid_recs = map rec_anime_id popular)"
proof -
  define pop where "pop = filter (\<lambda>a. a_anime_id a \<in> set (map r_anime_id rating_data)
                     \<and> 50 \<le> int (count_list (map r_anime_id rating_data) (a_anime_id a)))
                  anime_data"
  define popular where "popular = (\<lambda>n. map popular_recommendation (py_prefix n pop))"
  have fallback: "get_popular_recommendations dp n = Inr (popular n)" for n
    unfolding popular_def pop_def by (rule get_popular_recommendations_eq [OF assms(1,2)])
  have cf: "cf_get_recommendations lib default_max_users default_max_anime dp user_id n =
      Inr (popular n)" for n
    using cf_cold_start [OF assms(1,2,6,4)] fallback by simp
  have cb: "cb_get_recommendations lib dp user_id n = Inr (popular n)" for n
    using cb_cold_start [OF assms(1,2,7,4)] fallback by simp
  have ids: "map rec_anime_id (popular n) = py_prefix n (map a_anime_id pop)" for n
    unfolding popular_def map_py_prefix [symmetric]
    by (simp add: popular_recommendation_fields)
  have "distinct (map a_anime_id pop)"
    unfolding pop_def using assms(3) by (rule distinct_map_filter)
  then have dist: "distinct (map rec_anime_id (popular (k * 2)))"
    unfolding ids by (rule distinct_py_prefix)
  have zero: "\<forall>r \<in> set (popular (k * 2)). similarity_score r = Some 0"
    unfolding popular_def by (auto simp: popular_recommendation_fields)
  have hybrid: "hybrid_get_recommendations lib dp h user_id k =
      Inr (combine_recommendations h (popular (k * 2)) (popular (k * 2)) k)"
    by (simp add: hybrid_get_recommendations_def cf cb)
  have "map rec_anime_id (combine_recommendations h (popular (k * 2)) (popular (k * 2)) k) =
      py_prefix k (map rec_anime_id (popular (k * 2)))"
    using combine_same_zero [OF dist zero] by blast
  also have "\<dots> = map rec_anime_id (popular k)"
    unfolding ids using assms(5) by (rule py_prefix_twice)
  finally show ?thesis using fallback cf cb hybrid by blast
qed

theorem cold_start_returns_popularity_fallback_witness:
  "cf_get_recommendations ones_library default_max_users default_max_anime two_items_provider
       500 1 = Inr [popular_recommendation (item 1 5)]
   \<and> cb_get_recommendations ones_library two_items_provider 500 1 =
       Inr [popular_recommendation (item 1 5)]
   \<and> map_sum id (map rec_anime_id)
       (hybrid_get_recommendations ones_library two_items_provider new_hybrid_recommender 500 1)
       = Inr [1]"
proof -
  have "0 \<le> (1::int)" by simp
  from cold_start_returns_popularity_fallback [OF two_items_loads two_items_distinct
      two_items_cold_user this ones_library_calls, of new_hybrid_recommender]
  obtain popular hybrid_recs where
    "get_popular_recommendations two_items_provider 1 = Inr popular"
    and cf: "cf_get_recommendations ones_library default_max_users default_max_anime
        two_items_provider 500 1 = Inr popular"
    and cb: "cb_get_recommendations ones_library two_items_provider 500 1 = Inr popular"
    and h: "hybrid_get_recommendations ones_library two_items_provider new_hybrid_recommender
        500 1 = Inr hybrid_recs"
    and ids: "map rec_anime_id hybrid_recs = map rec_anime_id popular"
    by blast
  then have popular: "popular = [popular_recommendation (item 1 5)]"
    using two_items_popular(1) by simp
  show ?thesis
    using cf cb h ids unfolding popular
    by (simp add: popular_recommendation_fields item_def)
qed

section \<open>The neighbourhood of the collaborative engine\<close>

text \<open>
  C8 fails where another user is as similar to the target as the target itself. The
  neighbourhood is \<open>np.argsort(user_similarities)[::-1][1:11]\<close>: the ranking without its
  first entry, whoever that is. For user 1 of the three users above (index 0, similarities
  \<open>[1, 1, 12/25]\<close>) the ranking is \<open>[1, 0, 2]\<close>, so the neighbourhood is index 0, the target
  itself, and index 2; user 2 (index 1), the most similar other user, is not in it.
\<close>

theorem neighbourhood_keeps_target_on_tie:
  "compute_user_similarity three_raters_library default_max_users default_max_anime
     three_raters_provider = Inr three_raters_model
   \<and> map_of (user_mapping three_raters_model) 1 = Some 0
   \<and> map_of (user_mapping three_raters_model) 2 = Some 1
   \<and> user_similarity_matrix three_raters_model ! 0 = [1, 1, 12 / 25]
   \<and> similar_users (user_similarity_matrix three_raters_model ! 0) = [0, 2]"
  using three_raters_build three_raters_neighbours
  by (simp add: three_raters_model_def)

text \<open>
  The order of equal similarities does not matter for this: users 1 and 2 have the same
  row of similarities, hence the same neighbourhood, and whatever order the ranking has,
  the neighbourhood holds index 0 or index 1, so one of the two users is its own neighbour.
\<close>

lemma window_keeps_a_twin:
  assumes "distinct order" and "set order = {0, 1, 2 :: nat}"
  shows "0 \<in> set (take 10 (drop 1 (rev order))) \<or> 1 \<in> set (take 10 (drop 1 (rev order)))"
proof -
  have "card (set order) = 3" unfolding assms(2) by simp
  then have "length order = 3"
    using assms(1) distinct_card [of order] by simp
  then obtain a b c where order: "order = [a, b, c]"
    by (auto simp: length_Suc_conv numeral_3_eq_3)
  have window: "set (take 10 (drop 1 (rev order))) = {a, b}"
    unfolding order by auto
  have "0 \<in> {a, b, c}" and "1 \<in> {a, b, c}"
    using assms(2) unfolding order by auto
  then have "0 \<in> {a, b} \<or> 1 \<in> {a, b}" by auto
  then show ?thesis unfolding window .
qed

text \<open>
  The rest of the claim holds for the neighbourhood the code selects. For a mapped user the
  scoring loops never raise; the scored items are exactly the items that the user has not
  rated (stored rating \<open>0\<close>) and some neighbour has rated (rating \<open>> 0\<close>); and the score of
  such an item is the sum, over the neighbours that rated it, of similarity times rating.
  The candidates are then sorted on that score, descending (\<open>sorted_sorted_reverse\<close>).
\<close>

lemma collaborative_scores_accumulate:
  assumes "compute_user_similarity lib max_users max_anime dp = Inr m"
    and "map_of (user_mapping m) user_id = Some u"
  shows "\<exists>scores. collaborative_scores m u = Inr scores
    \<and> distinct (map fst scores)
    \<and> (\<forall>a. a \<in> set (map fst scores) \<longleftrightarrow>
          (\<exists>v \<in> set (similar_users (user_similarity_matrix m ! u)).
             \<exists>j < length (anime_mapping m).
               rating_matrix m ! v ! j > 0 \<and> rating_matrix m ! u ! j = 0
               \<and> a = fst (anime_mapping m ! j)))
    \<and> (\<forall>j < length (anime_mapping m).
          score_of scores (fst (anime_mapping m ! j)) =
            (\<Sum>v \<leftarrow> similar_users (user_similarity_matrix m ! u).
               if rating_matrix m ! v ! j > 0 \<and> rating_matrix m ! u ! j = 0
               then user_similarity_matrix m ! u ! v * rating_matrix m ! v ! j else 0))"
proof -
  from build_shape [OF assms(1)] obtain ids uids entries where
    am: "anime_mapping m = zip ids [0..<length ids]" and dist: "distinct ids"
    and um: "user_mapping m = zip uids [0..<length uids]"
    and len: "length (rating_matrix m) = length uids"
    and rows: "\<forall>row \<in> set (rating_matrix m). length row = length ids"
    and sim: "user_similarity_matrix m = dense (length uids) entries"
    by blast
  let ?R = "rating_matrix m"
  let ?sims = "user_similarity_matrix m ! u"
  let ?ur = "?R ! u"
  let ?N = "similar_users ?sims"
  have "(user_id, u) \<in> set (zip uids [0..<length uids])"
    using assms(2) unfolding um by (rule map_of_SomeD)
  then have "u \<in> set [0..<length uids]" by (rule set_zip_rightD)
  then have u: "u < length uids" by simp
  have "length ?sims = length uids"
    unfolding sim using u by (rule length_dense_row)
  then have bound: "\<forall>v \<in> set ?N. v < length ?R"
    using similar_users_bound [of _ ?sims] len by auto
  then have row_len: "\<forall>v \<in> set ?N. length (?R ! v) = length ids"
    using rows by simp
  have total: "fold_err (score_neighbour m ?sims ?ur) ?N [] =
      Inr (fold (neighbour_step ids ?R ?sims ?ur) ?N [])"
    by (rule fold_err_total) (use row_len score_neighbour_zip [OF am] in blast)
  let ?scores = "fold (neighbour_step ids ?R ?sims ?ur) ?N []"
  have run: "collaborative_scores m u = Inr ?scores"
    unfolding collaborative_scores_def Let_def by (rule total)
  have distinct: "distinct (map fst ?scores)"
    using collaborative_scores_distinct [OF run] .
  have n: "length (anime_mapping m) = length ids" unfolding am by simp
  have key: "fst (anime_mapping m ! j) = ids ! j" if "j < length ids" for j
    unfolding am using that by simp
  have keys: "a \<in> set (map fst ?scores) \<longleftrightarrow>
          (\<exists>v \<in> set ?N. \<exists>j < length (anime_mapping m).
               ?R ! v ! j > 0 \<and> ?ur ! j = 0 \<and> a = fst (anime_mapping m ! j))" for a
  proof -
    have "a \<in> set (map fst ?scores) \<longleftrightarrow>
        (\<exists>v \<in> set ?N. \<exists>j < length (?R ! v). ?R ! v ! j > 0 \<and> ?ur ! j = 0 \<and> a = ids ! j)"
      using neighbours_keys [of a ids ?R ?sims ?ur ?N "[]"] by simp
    also have "\<dots> \<longleftrightarrow> (\<exists>v \<in> set ?N. \<exists>j < length ids.
        ?R ! v ! j > 0 \<and> ?ur ! j = 0 \<and> a = ids ! j)"
      using row_len by auto
    also have "\<dots> \<longleftrightarrow> (\<exists>v \<in> set ?N. \<exists>j < length (anime_mapping m).
               ?R ! v ! j > 0 \<and> ?ur ! j = 0 \<and> a = fst (anime_mapping m ! j))"
      unfolding n using key by (metis (no_types, lifting))
    finally show ?thesis .
  qed
  have sums: "score_of ?scores (fst (anime_mapping m ! j)) =
            (\<Sum>v \<leftarrow> ?N. if ?R ! v ! j > 0 \<and> ?ur ! j = 0
               then ?sims ! v * ?R ! v ! j else 0)" if "j < length (anime_mapping m)" for j
  proof -
    have j: "j < length ids" using that n by simp
    show ?thesis
      unfolding key [OF j]
      using neighbours_value [OF dist row_len j, of ?sims ?ur "[]"]
      by (simp add: score_of_def)
  qed
  show ?thesis using run distinct keys sums by blast
qed

section \<open>Length and repeated items of a result\<close>

text \<open>
  C4. For every valid strategy and every \<open>k \<ge> 1\<close>, a list the service returns has at most
  \<open>k\<close> records. A list returned for the collaborative or the content strategy has no item
  id twice: the engines' own rankings are read off a dict keyed by item id, so they never
  repeat an id; a popularity list (the engines' cold-start answer, or the service's
  fallback) follows the item table, so it repeats no id when the item table has unique
  ids, as the data model says it has.
\<close>

theorem results_bounded_and_without_repeats:
  assumes "1 \<le> k"
    and "strategy \<in> {''collaborative'', ''content'', ''hybrid''}"
    and "get_recommendations lib svc user_id strategy k = Inr recs"
  shows "length recs \<le> nat k
    \<and> (strategy \<noteq> ''hybrid'' \<longrightarrow>
         (\<forall>r \<in> set recs. recommendation_type r \<noteq> ''popular'') \<longrightarrow>
         distinct (map rec_anime_id recs))
    \<and> (strategy \<noteq> ''hybrid'' \<longrightarrow>
         (\<forall>anime_data. load_anime_data (provider svc) = Inr anime_data \<longrightarrow>
            distinct (map a_anime_id anime_data)) \<longrightarrow>
         distinct (map rec_anime_id recs))"
proof -
  have k: "0 \<le> k" using assms(1) by simp
  have valid: "strategy \<in> set strategies" using assms(2) by (auto simp: strategies_def)
  show ?thesis
  proof (cases "strategy_get_recommendations lib svc strategy user_id k")
    case (Inl e)
    then have "get_fallback_recommendations svc k = Inr recs"
      using assms(3) valid by (simp add: get_recommendations_def)
    from fallback_props [OF this k] show ?thesis by blast
  next
    case (Inr engine_recs)
    then have run: "strategy_get_recommendations lib svc strategy user_id k = Inr recs"
      using assms(3) valid by (simp add: get_recommendations_def)
    consider (cf) "strategy = ''collaborative''" | (cb) "strategy = ''content''"
      | (hy) "strategy = ''hybrid''"
      using assms(2) by auto
    then show ?thesis
    proof cases
      case cf
      then have "cf_get_recommendations lib default_max_users default_max_anime (provider svc)
          user_id k = Inr recs"
        using run by (simp add: strategy_get_recommendations_def)
      from cf_props [OF this k] show ?thesis by blast
    next
      case cb
      then have "cb_get_recommendations lib (provider svc) user_id k = Inr recs"
        using run by (simp add: strategy_get_recommendations_def)
      from cb_props [OF this k] show ?thesis by blast
    next
      case hy
      then have "hybrid_get_recommendations lib (provider svc) (hybrid svc) user_id k = Inr recs"
        using run by (simp add: strategy_get_recommendations_def)
      from hybrid_props [OF this k] show ?thesis using hy by simp
    qed
  qed
qed

theorem results_bounded_and_without_repeats_witness:
  "get_recommendations three_raters_library (new_service three_raters_provider) 1
       ''collaborative'' 5 = Inr [scored 30 (36 / 25) ''collaborative'']
   \<and> length [scored 30 (36 / 25) ''collaborative''] \<le> nat 5
   \<and> distinct (map rec_anime_id [scored 30 (36 / 25) ''collaborative''])"
proof -
  have run: "get_recommendations three_raters_library (new_service three_raters_provider) 1
       ''collaborative'' 5 = Inr [scored 30 (36 / 25) ''collaborative'']"
    using three_raters_recommendations
    by (simp add: get_recommendations_def strategies_def strategy_get_recommendations_def
        new_service_def)
  have typed: "\<forall>r \<in> set [scored 30 (36 / 25) ''collaborative''].
      recommendation_type r \<noteq> ''popular''"
    by (simp add: scored_def make_recommendation_fields)
  have "(1::int) \<le> 5" by simp
  from results_bounded_and_without_repeats [OF this _ run] typed
  show ?thesis using run by simp
qed

end
